theory Spec2Isabelle
  imports Main
begin

section \<open>Python values, exceptions and effects\<close>

text \<open>
  The automation package is Python. Its methods log, touch the local file system, an
  object-storage bucket and a MySQL connection, and they raise and catch exceptions.
  The embedding makes all of that explicit: a method is a function from the state of
  the world to an outcome (a raised exception on the left, a returned value on the
  right) and the new state.

  The exception classes are the subclasses of \<open>Exception\<close> that the package names or that
  its collaborators raise. \<open>KeyboardInterrupt\<close> is not one of them (it is not a subclass of
  \<open>Exception\<close>); the only place where the package handles it is the polling loop of the
  scheduler, and it is modelled there.
\<close>

datatype exc_class =
    ValueError
  | OverflowError
  | UnboundLocalError
  | OSError
  | SubprocessError
  | MySQLError
  | ClientError
  | NoCredentialsError
  | RuntimeError

datatype py_exc = Exc (exc_cls: exc_class) (exc_msg: string)

datatype log_level = INFO | WARNING | ERROR

text \<open>
  What a run leaves behind, in order: the lines given to the logger, the sleeps of the
  polling loop, the polls of the schedule, and the statements that changed a table.
\<close>

datatype event =
    Log log_level string
  | Sleep nat
  | RunPending
  | Uploaded string
  | Inserted string

text \<open>
  A computation over a state \<open>'s\<close>: the outcome and the state it leaves. The state is the
  world, or the world together with the local variables of the running method (Python
  locals are state: an \<open>except\<close> or \<open>finally\<close> block reads what the \<open>try\<close> block had bound
  when it raised).
\<close>

type_synonym ('a, 's) py = "'s \<Rightarrow> (py_exc + 'a) \<times> 's"

definition py_return :: "'a \<Rightarrow> ('a, 's) py" where
  "py_return x s = (Inr x, s)"

definition py_raise :: "py_exc \<Rightarrow> ('a, 's) py" where
  "py_raise e s = (Inl e, s)"

definition py_bind :: "('a, 's) py \<Rightarrow> ('a \<Rightarrow> ('b, 's) py) \<Rightarrow> ('b, 's) py" where
  "py_bind m f s = (case m s of (Inl e, s') \<Rightarrow> (Inl e, s') | (Inr x, s') \<Rightarrow> f x s')"

definition py_then :: "('a, 's) py \<Rightarrow> ('b, 's) py \<Rightarrow> ('b, 's) py" where
  "py_then m n = py_bind m (\<lambda>_. n)"

text \<open>
  \<open>try: body except ...\<close>: the handler function gives the \<open>except\<close> clause that matches the
  exception (the first one, in the source's order), or \<open>None\<close> when no clause matches and
  the exception propagates. An exception raised inside a handler propagates.
\<close>

definition py_try :: "('a, 's) py \<Rightarrow> (py_exc \<Rightarrow> ('a, 's) py option) \<Rightarrow> ('a, 's) py" where
  "py_try body handler s =
     (case body s of
        (Inr x, s') \<Rightarrow> (Inr x, s')
      | (Inl e, s') \<Rightarrow> (case handler e of None \<Rightarrow> (Inl e, s') | Some h \<Rightarrow> h s'))"

text \<open>
  \<open>finally\<close>: the block runs whatever the outcome before it; when it raises, its
  exception replaces that outcome (a pending \<open>return\<close> value included).
\<close>

definition py_finally :: "('a, 's) py \<Rightarrow> (unit, 's) py \<Rightarrow> ('a, 's) py" where
  "py_finally body fin s =
     (case body s of (r, s') \<Rightarrow>
        (case fin s' of (Inl e, s'') \<Rightarrow> (Inl e, s'') | (Inr _, s'') \<Rightarrow> (r, s'')))"

text \<open>\<open>except Exception\<close> matches every exception of the model.\<close>

definition except_Exception :: "(py_exc \<Rightarrow> ('a, 's) py) \<Rightarrow> py_exc \<Rightarrow> ('a, 's) py option" where
  "except_Exception h e = Some (h e)"

definition except_class :: "exc_class \<Rightarrow> (py_exc \<Rightarrow> ('a, 's) py) \<Rightarrow> py_exc \<Rightarrow> ('a, 's) py option" where
  "except_class c h e = (if exc_cls e = c then Some (h e) else None)"

text \<open>Local variables: the frame \<open>'l\<close> of a method beside the world.\<close>

definition in_world :: "('a, 'w) py \<Rightarrow> ('a, 'l \<times> 'w) py" where
  "in_world m s = (case m (snd s) of (r, w') \<Rightarrow> (r, (fst s, w')))"

definition assign :: "('l \<Rightarrow> 'l) \<Rightarrow> (unit, 'l \<times> 'w) py" where
  "assign f s = (Inr (), (f (fst s), snd s))"

definition with_frame :: "'l \<Rightarrow> ('a, 'l \<times> 'w) py \<Rightarrow> ('a, 'w) py" where
  "with_frame l m w = (case m (l, w) of (r, s') \<Rightarrow> (r, snd s'))"

text \<open>Reading a local that no assignment has bound raises \<open>UnboundLocalError\<close>.\<close>

definition read_local :: "('l \<Rightarrow> bool) \<Rightarrow> string \<Rightarrow> (unit, 'l \<times> 'w) py" where
  "read_local bound name s =
     (if bound (fst s) then (Inr (), s)
      else (Inl (Exc UnboundLocalError (''cannot access local variable '' @ name)), s))"

section \<open>config.py\<close>

text \<open>
  \<open>get_config\<close> returns a dictionary with a fixed set of keys: a record, and
  \<open>config_get\<close> is its view as a dictionary (\<open>config.get(key)\<close>).
\<close>

record config =
  MYSQL_HOST :: string
  MYSQL_DATABASE :: string
  MYSQL_USER :: string
  MYSQL_PASSWORD :: string
  REDIS_HOST :: string
  REDIS_PASSWORD :: string
  REDIS_PORT :: int
  R2_ACCOUNT_ID :: string
  R2_ACCESS_KEY_ID :: string
  R2_SECRET_ACCESS_KEY :: string
  R2_BUCKET_NAME :: string
  R2_ENDPOINT :: string
  SITE1_DOMAIN :: string
  SITE2_DOMAIN :: string
  BACKUP_RETENTION_DAYS :: int
  TZ :: string

datatype py_val = PyStr string | PyInt int

definition truthy :: "py_val option \<Rightarrow> bool" where
  "truthy v = (case v of None \<Rightarrow> False | Some (PyStr s) \<Rightarrow> s \<noteq> [] | Some (PyInt n) \<Rightarrow> n \<noteq> 0)"

definition config_get :: "config \<Rightarrow> string \<Rightarrow> py_val option" where
  "config_get c key =
     (if key = ''MYSQL_HOST'' then Some (PyStr (MYSQL_HOST c))
      else if key = ''MYSQL_DATABASE'' then Some (PyStr (MYSQL_DATABASE c))
      else if key = ''MYSQL_USER'' then Some (PyStr (MYSQL_USER c))
      else if key = ''MYSQL_PASSWORD'' then Some (PyStr (MYSQL_PASSWORD c))
      else if key = ''REDIS_HOST'' then Some (PyStr (REDIS_HOST c))
      else if key = ''REDIS_PASSWORD'' then Some (PyStr (REDIS_PASSWORD c))
      else if key = ''REDIS_PORT'' then Some (PyInt (REDIS_PORT c))
      else if key = ''R2_ACCOUNT_ID'' then Some (PyStr (R2_ACCOUNT_ID c))
      else if key = ''R2_ACCESS_KEY_ID'' then Some (PyStr (R2_ACCESS_KEY_ID c))
      else if key = ''R2_SECRET_ACCESS_KEY'' then Some (PyStr (R2_SECRET_ACCESS_KEY c))
      else if key = ''R2_BUCKET_NAME'' then Some (PyStr (R2_BUCKET_NAME c))
      else if key = ''R2_ENDPOINT'' then Some (PyStr (R2_ENDPOINT c))
      else if key = ''SITE1_DOMAIN'' then Some (PyStr (SITE1_DOMAIN c))
      else if key = ''SITE2_DOMAIN'' then Some (PyStr (SITE2_DOMAIN c))
      else if key = ''BACKUP_RETENTION_DAYS'' then Some (PyInt (BACKUP_RETENTION_DAYS c))
      else if key = ''TZ'' then Some (PyStr (TZ c))
      else None)"

text \<open>
  \<open>load_dotenv()\<close> adds the variables of the \<open>.env\<close> file that the process environment
  does not set already; \<open>os.getenv(key, default)\<close> reads the result.
\<close>

definition load_dotenv :: "(string \<rightharpoonup> string) \<Rightarrow> (string \<rightharpoonup> string) \<Rightarrow> (string \<rightharpoonup> string)" where
  "load_dotenv dotenv environ = (\<lambda>k. case environ k of Some v \<Rightarrow> Some v | None \<Rightarrow> dotenv k)"

definition getenv :: "(string \<rightharpoonup> string) \<Rightarrow> string \<Rightarrow> string \<Rightarrow> string" where
  "getenv environ key dflt = (case environ key of None \<Rightarrow> dflt | Some v \<Rightarrow> v)"

text \<open>
  \<open>int(os.getenv(key, n))\<close>: the default is an integer already; a value from the
  environment is a string, parsed by Python's \<open>int\<close>, which is the parameter \<open>py_int\<close>
  (\<open>None\<close> where \<open>int\<close> raises \<open>ValueError\<close>).
\<close>

definition int_getenv :: "(string \<Rightarrow> int option) \<Rightarrow> (string \<rightharpoonup> string) \<Rightarrow> string \<Rightarrow> int \<Rightarrow> py_exc + int" where
  "int_getenv py_int environ key dflt =
     (case environ key of
        None \<Rightarrow> Inr dflt
      | Some v \<Rightarrow>
          (case py_int v of
             None \<Rightarrow> Inl (Exc ValueError (''invalid literal for int() with base 10: '' @ v))
           | Some n \<Rightarrow> Inr n))"

definition required_keys :: "string list" where
  "required_keys =
     [''MYSQL_PASSWORD'', ''REDIS_PASSWORD'', ''R2_ACCESS_KEY_ID'',
      ''R2_SECRET_ACCESS_KEY'', ''R2_ENDPOINT'']"

fun join :: "string \<Rightarrow> string list \<Rightarrow> string" where
  "join sep [] = []"
| "join sep [x] = x"
| "join sep (x # y # ys) = x @ sep @ join sep (y # ys)"

definition get_config :: "(string \<Rightarrow> int option) \<Rightarrow> (string \<rightharpoonup> string) \<Rightarrow> (string \<rightharpoonup> string) \<Rightarrow> py_exc + config" where
  "get_config py_int dotenv environ0 =
     (let environ = load_dotenv dotenv environ0 in
      case int_getenv py_int environ ''REDIS_PORT'' 6379 of
        Inl e \<Rightarrow> Inl e
      | Inr redis_port \<Rightarrow>
      (case int_getenv py_int environ ''BACKUP_RETENTION_DAYS'' 30 of
        Inl e \<Rightarrow> Inl e
      | Inr retention \<Rightarrow>
        (let config = \<lparr>
               MYSQL_HOST = getenv environ ''MYSQL_HOST'' ''mysql'',
               MYSQL_DATABASE = getenv environ ''MYSQL_DATABASE'' ''content_ops'',
               MYSQL_USER = getenv environ ''MYSQL_USER'' ''content_user'',
               MYSQL_PASSWORD = getenv environ ''MYSQL_PASSWORD'' [],
               REDIS_HOST = getenv environ ''REDIS_HOST'' ''redis'',
               REDIS_PASSWORD = getenv environ ''REDIS_PASSWORD'' [],
               REDIS_PORT = redis_port,
               R2_ACCOUNT_ID = getenv environ ''R2_ACCOUNT_ID'' [],
               R2_ACCESS_KEY_ID = getenv environ ''R2_ACCESS_KEY_ID'' [],
               R2_SECRET_ACCESS_KEY = getenv environ ''R2_SECRET_ACCESS_KEY'' [],
               R2_BUCKET_NAME = getenv environ ''R2_BUCKET_NAME'' ''content-ops-backups'',
               R2_ENDPOINT = getenv environ ''R2_ENDPOINT'' [],
               SITE1_DOMAIN = getenv environ ''SITE1_DOMAIN'' ''site1.localhost'',
               SITE2_DOMAIN = getenv environ ''SITE2_DOMAIN'' ''site2.localhost'',
               BACKUP_RETENTION_DAYS = retention,
               TZ = getenv environ ''TZ'' ''UTC'' \<rparr>;
             missing_keys = filter (\<lambda>key. \<not> truthy (config_get config key)) required_keys
         in if missing_keys \<noteq> []
            then Inl (Exc ValueError
                   (''Missing required configuration: '' @ join '', '' missing_keys))
            else Inr config)))"

section \<open>The world outside the package\<close>

text \<open>
  The collaborators are the local file system, the backup producer (\<open>mysqldump\<close>), the
  object-storage bucket and the MySQL server. What they hold is the state \<open>world\<close>; how
  they answer (the clock, a producer that exits non-zero, a deletion that is refused, a
  request the storage rejects) is the environment \<open>env\<close>, fixed during a call.
  Timestamps are integers, in microseconds since the epoch.
\<close>

record post_row =
  ID :: nat
  post_author :: nat
  post_date :: int
  post_date_gmt :: int
  post_content :: string
  post_title :: string
  post_excerpt :: string
  post_status :: string
  post_type :: string
  post_modified :: int
  post_modified_gmt :: int
  guid :: string

record user_row =
  user_ID :: nat
  user_login :: string
  user_email :: string
  user_registered :: int
  display_name :: string
  user_status :: int

text \<open>A table that the database does not have is \<open>None\<close>: a statement on it fails.\<close>

record database =
  posts :: "string \<rightharpoonup> post_row list"
  users :: "string \<rightharpoonup> user_row list"

datatype proc_outcome = CompletedProcess int string | RunRaises py_exc

record env =
  cfg :: config
  now :: int
  utcnow :: int
  timestamp :: string
  open_error :: "string \<Rightarrow> py_exc option"
  subprocess_run :: "string list \<Rightarrow> proc_outcome"
  unlink_error :: "string \<Rightarrow> py_exc option"
  r2_upload_error :: "string \<Rightarrow> py_exc option"
  r2_list_error :: "py_exc option"
  r2_delete_error :: "string \<Rightarrow> py_exc option"

text \<open>
  \<open>files\<close> are the local files with their modification times, in the order in which a
  directory listing yields them; \<open>bucket\<close> the stored objects with their \<open>LastModified\<close>.
  The MySQL connection works on \<open>db_session\<close>, its view of the data with the changes of
  the open transaction; \<open>db_committed\<close> is what persists. \<open>db_faults\<close> scripts the
  server: each call to it takes the next entry, and \<open>Some msg\<close> makes that call raise
  \<open>mysql.connector.Error\<close>.
\<close>

record world =
  trace :: "event list"
  files :: "(string \<times> int) list"
  bucket :: "(string \<times> int) list"
  db_connection :: bool
  db_committed :: database
  db_session :: database
  db_faults :: "string option list"

definition py_gets :: "('s \<Rightarrow> 'a) \<Rightarrow> ('a, 's) py" where
  "py_gets f s = (Inr (f s), s)"

definition py_modify :: "('s \<Rightarrow> 's) \<Rightarrow> (unit, 's) py" where
  "py_modify f s = (Inr (), f s)"

definition py_lift :: "py_exc + 'a \<Rightarrow> ('a, 's) py" where
  "py_lift r s = (r, s)"

definition logger :: "log_level \<Rightarrow> string \<Rightarrow> (unit, world) py" where
  "logger lvl msg = py_modify (\<lambda>w. w\<lparr>trace := trace w @ [Log lvl msg]\<rparr>)"

definition emit :: "event \<Rightarrow> (unit, world) py" where
  "emit ev = py_modify (\<lambda>w. w\<lparr>trace := trace w @ [ev]\<rparr>)"

subsection \<open>Strings and numbers\<close>

fun str_nat :: "nat \<Rightarrow> string" where
  "str_nat n =
     (if n < 10 then [''0123456789'' ! n]
      else str_nat (n div 10) @ [''0123456789'' ! (n mod 10)])"

declare str_nat.simps [simp del]

definition str_int :: "int \<Rightarrow> string" where
  "str_int i = (if i < 0 then CHR ''-'' # str_nat (nat (- i)) else str_nat (nat i))"

definition str_bool :: "bool \<Rightarrow> string" where
  "str_bool b = (if b then ''True'' else ''False'')"

definition endswith :: "string \<Rightarrow> string \<Rightarrow> bool" where
  "endswith s suffix = (length suffix \<le> length s \<and> drop (length s - length suffix) s = suffix)"

definition startswith :: "string \<Rightarrow> string \<Rightarrow> bool" where
  "startswith s prefix = (take (length prefix) s = prefix)"

text \<open>\<open>Path(p).name\<close> and \<open>Path(p).parent\<close> of a path that has a directory part.\<close>

definition path_name :: "string \<Rightarrow> string" where
  "path_name p = rev (takeWhile (\<lambda>c. c \<noteq> CHR ''/'') (rev p))"

definition path_parent :: "string \<Rightarrow> string" where
  "path_parent p = rev (drop 1 (dropWhile (\<lambda>c. c \<noteq> CHR ''/'') (rev p)))"

subsection \<open>Dates\<close>

text \<open>
  \<open>timedelta(days=d, hours=h)\<close> raises \<open>OverflowError\<close> beyond 999999999 days, and a
  \<open>datetime\<close> lies between the years 1 and 9999. The conversion of a naive local
  \<open>datetime\<close> to a timestamp is the identity here (no change of the UTC offset between the
  two dates).
\<close>

definition us_per_hour :: int where
  "us_per_hour = 3600000000"

definition us_per_day :: int where
  "us_per_day = 86400000000"

definition timedelta :: "int \<Rightarrow> int \<Rightarrow> py_exc + int" where
  "timedelta days hours =
     (let us = days * us_per_day + hours * us_per_hour
      in if \<bar>us div us_per_day\<bar> > 999999999
         then Inl (Exc OverflowError ''days out of range for timedelta'')
         else Inr us)"

definition datetime_min :: int where
  "datetime_min = - 62135596800000000"

definition datetime_max :: int where
  "datetime_max = 253402300799999999"

definition datetime_sub :: "int \<Rightarrow> int \<Rightarrow> py_exc + int" where
  "datetime_sub t delta =
     (if t - delta < datetime_min \<or> datetime_max < t - delta
      then Inl (Exc OverflowError ''date value out of range'')
      else Inr (t - delta))"

definition cutoff :: "int \<Rightarrow> int \<Rightarrow> int \<Rightarrow> py_exc + int" where
  "cutoff t days hours =
     (case timedelta days hours of Inl e \<Rightarrow> Inl e | Inr delta \<Rightarrow> datetime_sub t delta)"

subsection \<open>Files\<close>

definition path_exists :: "string \<Rightarrow> world \<Rightarrow> bool" where
  "path_exists path w = (path \<in> set (map fst (files w)))"

definition remove_path :: "string \<Rightarrow> (string \<times> int) list \<Rightarrow> (string \<times> int) list" where
  "remove_path path fs = filter (\<lambda>f. fst f \<noteq> path) fs"

text \<open>\<open>open(path, 'w')\<close> creates the file, or truncates the one that is there.\<close>

definition open_w :: "env \<Rightarrow> string \<Rightarrow> (unit, world) py" where
  "open_w env path =
     (case open_error env path of
        Some e \<Rightarrow> py_raise e
      | None \<Rightarrow> py_modify (\<lambda>w. w\<lparr>files := remove_path path (files w) @ [(path, now env)]\<rparr>))"

definition unlink :: "env \<Rightarrow> string \<Rightarrow> (unit, world) py" where
  "unlink env path =
     (case unlink_error env path of
        Some e \<Rightarrow> py_raise e
      | None \<Rightarrow> py_modify (\<lambda>w. w\<lparr>files := remove_path path (files w)\<rparr>))"

definition backup_dir :: string where
  "backup_dir = ''/app/backups''"

text \<open>\<open>self.backup_dir.glob("*.sql")\<close>: the directory is listed when the loop starts.\<close>

definition glob_sql :: "world \<Rightarrow> (string \<times> int) list" where
  "glob_sql w =
     filter (\<lambda>f. path_parent (fst f) = backup_dir \<and> endswith (path_name (fst f)) ''.sql'') (files w)"

section \<open>r2\_storage.py\<close>

definition upload_file :: "env \<Rightarrow> string \<Rightarrow> string \<Rightarrow> (bool, world) py" where
  "upload_file env local_path r2_key =
     py_try
       (py_bind (py_gets (path_exists local_path)) (\<lambda>exists.
          if \<not> exists
          then py_then (logger ERROR (''Local file not found: '' @ local_path)) (py_return False)
          else
            py_then (case r2_upload_error env r2_key of
                       Some e \<Rightarrow> py_raise e
                     | None \<Rightarrow>
                         py_then (py_modify (\<lambda>w. w\<lparr>bucket :=
                                    remove_path r2_key (bucket w) @ [(r2_key, utcnow env)]\<rparr>))
                                 (emit (Uploaded r2_key)))
           (py_then (logger INFO (''File uploaded successfully: '' @ r2_key))
                    (py_return True))))
       (\<lambda>e. if exc_cls e = ClientError
            then Some (py_then (logger ERROR
                    (''Error uploading file '' @ local_path @ '': '' @ exc_msg e))
                    (py_return False))
            else Some (py_then (logger ERROR
                    (''Unexpected error uploading file '' @ local_path @ '': '' @ exc_msg e))
                    (py_return False)))"

text \<open>The service lists at most 1000 keys for one request, whatever \<open>MaxKeys\<close> asks.\<close>

definition list_objects :: "env \<Rightarrow> string \<Rightarrow> nat \<Rightarrow> ((string \<times> int) list, world) py" where
  "list_objects env prefix max_keys =
     py_try
       (py_bind (case r2_list_error env of
                   Some e \<Rightarrow> py_raise e
                 | None \<Rightarrow> py_gets (\<lambda>w. take (min max_keys 1000)
                              (filter (\<lambda>obj. startswith (fst obj) prefix) (bucket w))))
          (\<lambda>objects.
             py_then (logger INFO (''Listed '' @ str_nat (length objects)
                        @ '' objects with prefix '' @ prefix))
                     (py_return objects)))
       (except_class ClientError (\<lambda>e.
          py_then (logger ERROR (''Error listing objects: '' @ exc_msg e)) (py_return [])))"

definition delete_object :: "env \<Rightarrow> string \<Rightarrow> (bool, world) py" where
  "delete_object env r2_key =
     py_try
       (py_then (case r2_delete_error env r2_key of
                   Some e \<Rightarrow> py_raise e
                 | None \<Rightarrow> py_modify (\<lambda>w. w\<lparr>bucket := remove_path r2_key (bucket w)\<rparr>))
          (py_then (logger INFO (''Object deleted successfully: '' @ r2_key))
                   (py_return True)))
       (except_class ClientError (\<lambda>e.
          py_then (logger ERROR (''Error deleting object '' @ r2_key @ '': '' @ exc_msg e))
                  (py_return False)))"

text \<open>The loop of \<open>R2Storage.cleanup_old_backups\<close>, with its counter.\<close>

fun r2_cleanup_loop :: "env \<Rightarrow> int \<Rightarrow> (string \<times> int) list \<Rightarrow> nat \<Rightarrow> (nat, world) py" where
  "r2_cleanup_loop env cutoff_date [] deleted_count = py_return deleted_count"
| "r2_cleanup_loop env cutoff_date (obj # objects) deleted_count =
     (if snd obj < cutoff_date
      then py_bind (delete_object env (fst obj)) (\<lambda>deleted.
             r2_cleanup_loop env cutoff_date objects
               (if deleted then deleted_count + 1 else deleted_count))
      else r2_cleanup_loop env cutoff_date objects deleted_count)"

definition r2_cleanup_old_backups :: "env \<Rightarrow> string \<Rightarrow> int \<Rightarrow> (nat, world) py" where
  "r2_cleanup_old_backups env prefix retention_days =
     py_try
       (py_bind (py_lift (cutoff (utcnow env) retention_days 0)) (\<lambda>cutoff_date.
        py_bind (list_objects env prefix 1000) (\<lambda>objects.
        py_bind (r2_cleanup_loop env cutoff_date objects 0) (\<lambda>deleted_count.
        py_then (logger INFO (''Deleted '' @ str_nat deleted_count @ '' old backup objects''))
                (py_return deleted_count)))))
       (except_Exception (\<lambda>e.
          py_then (logger ERROR (''Error cleaning up old backups: '' @ exc_msg e))
                  (py_return 0)))"

section \<open>backup.py\<close>

text \<open>
  \<open>create_backup\<close> returns the path, or \<open>None\<close>. The producer is asked through
  \<open>subprocess.run\<close>; only \<open>subprocess.SubprocessError\<close> is caught.
\<close>

definition mysqldump_cmd :: "config \<Rightarrow> string list option \<Rightarrow> string list" where
  "mysqldump_cmd c tables =
     [''mysqldump'', ''-h'', MYSQL_HOST c, ''-u'', MYSQL_USER c, ''-p'' @ MYSQL_PASSWORD c,
      ''--single-transaction'', ''--routines'', ''--triggers'', MYSQL_DATABASE c]
     @ (case tables of None \<Rightarrow> [] | Some ts \<Rightarrow> ts)"

definition create_backup :: "env \<Rightarrow> string list option \<Rightarrow> (string option, world) py" where
  "create_backup env tables =
     (let backup_filename = ''content_ops_backup_'' @ timestamp env @ ''.sql'';
          backup_path = backup_dir @ ''/'' @ backup_filename;
          cmd = mysqldump_cmd (cfg env) tables
      in py_try
           (py_then (logger INFO (''Creating database backup: '' @ backup_filename))
           (py_then (open_w env backup_path)
           (case subprocess_run env cmd of
              RunRaises e \<Rightarrow> py_raise e
            | CompletedProcess returncode stderr \<Rightarrow>
                if returncode \<noteq> 0
                then py_then (logger ERROR (''Backup failed: '' @ stderr)) (py_return None)
                else py_then (logger INFO (''Backup created successfully: '' @ backup_path))
                             (py_return (Some backup_path)))))
           (except_class SubprocessError (\<lambda>e.
              py_then (logger ERROR (''Error creating backup: '' @ exc_msg e))
                      (py_return None))))"

definition upload_backup :: "env \<Rightarrow> string \<Rightarrow> (bool, world) py" where
  "upload_backup env backup_path =
     py_try
       (py_bind (py_gets (path_exists backup_path)) (\<lambda>exists.
          if \<not> exists
          then py_then (logger ERROR (''Backup file not found: '' @ backup_path))
                       (py_return False)
          else
            (let r2_key = ''backups/'' @ path_name backup_path
             in py_bind (upload_file env backup_path r2_key) (\<lambda>success.
                  if success
                  then py_then (logger INFO (''Backup uploaded to R2: '' @ r2_key))
                               (py_return True)
                  else py_then (logger ERROR ''Failed to upload backup to R2'')
                               (py_return False)))))
       (except_Exception (\<lambda>e.
          py_then (logger ERROR (''Error uploading backup: '' @ exc_msg e)) (py_return False)))"

text \<open>The loop of \<open>cleanup_old_backups\<close> over the listed files.\<close>

fun cleanup_loop :: "env \<Rightarrow> int \<Rightarrow> (string \<times> int) list \<Rightarrow> (unit, world) py" where
  "cleanup_loop env cutoff_date [] = py_return ()"
| "cleanup_loop env cutoff_date (backup_file # backup_files) =
     (if snd backup_file < cutoff_date
      then py_then (unlink env (fst backup_file))
          (py_then (logger INFO (''Deleted old backup: '' @ path_name (fst backup_file)))
                   (cleanup_loop env cutoff_date backup_files))
      else cleanup_loop env cutoff_date backup_files)"

definition cleanup_old_backups :: "env \<Rightarrow> int \<Rightarrow> (unit, world) py" where
  "cleanup_old_backups env retention_days =
     py_try
       (py_bind (py_lift (cutoff (now env) retention_days 0)) (\<lambda>cutoff_date.
        py_bind (py_gets glob_sql) (\<lambda>backup_files.
          cleanup_loop env cutoff_date backup_files)))
       (except_Exception (\<lambda>e.
          logger ERROR (''Error cleaning up old backups: '' @ exc_msg e)))"

text \<open>\<open>if not backup_path\<close> holds for \<open>None\<close> and for the empty string.\<close>

definition full_backup_process :: "env \<Rightarrow> (bool, world) py" where
  "full_backup_process env =
     py_try
       (py_bind (create_backup env None) (\<lambda>backup_path.
          case backup_path of
            None \<Rightarrow> py_return False
          | Some path \<Rightarrow>
              if path = [] then py_return False
              else
                py_bind (upload_backup env path) (\<lambda>upload_success.
                py_then (cleanup_old_backups env (BACKUP_RETENTION_DAYS (cfg env)))
                        (py_return upload_success))))
       (except_Exception (\<lambda>e.
          py_then (logger ERROR (''Error in full backup process: '' @ exc_msg e))
                  (py_return False)))"

section \<open>content\_sync.py\<close>

subsection \<open>The MySQL connection\<close>

text \<open>
  Every request to the server (connecting, opening a cursor, executing a statement,
  committing, rolling back) takes the next entry of the script \<open>db_faults\<close>. A statement
  on a table that does not exist fails as well. The rows of a statement's result are read
  completely. Closing a cursor or the connection does not fail; closing the connection
  discards the open transaction.
\<close>

definition db_call :: "(unit, world) py" where
  "db_call w =
     (case db_faults w of
        [] \<Rightarrow> (Inr (), w)
      | None # faults \<Rightarrow> (Inr (), w\<lparr>db_faults := faults\<rparr>)
      | Some msg # faults \<Rightarrow> (Inl (Exc MySQLError msg), w\<lparr>db_faults := faults\<rparr>))"

definition connect :: "(unit, world) py" where
  "connect =
     py_then db_call
       (py_modify (\<lambda>w. w\<lparr>db_connection := True, db_session := db_committed w\<rparr>))"

definition conn_cursor :: "(unit, world) py" where
  "conn_cursor = db_call"

definition cursor_close :: "(unit, world) py" where
  "cursor_close = py_return ()"

definition commit :: "(unit, world) py" where
  "commit = py_then db_call (py_modify (\<lambda>w. w\<lparr>db_committed := db_session w\<rparr>))"

definition rollback :: "(unit, world) py" where
  "rollback = py_then db_call (py_modify (\<lambda>w. w\<lparr>db_session := db_committed w\<rparr>))"

definition connection_close :: "(unit, world) py" where
  "connection_close =
     py_modify (\<lambda>w. w\<lparr>db_connection := False, db_session := db_committed w\<rparr>)"

definition posts_table :: "string \<Rightarrow> (post_row list, world) py" where
  "posts_table name w =
     (case posts (db_session w) name of
        None \<Rightarrow> (Inl (Exc MySQLError (''Table '' @ name @ '' does not exist'')), w)
      | Some rows \<Rightarrow> (Inr rows, w))"

definition users_table :: "string \<Rightarrow> (user_row list, world) py" where
  "users_table name w =
     (case users (db_session w) name of
        None \<Rightarrow> (Inl (Exc MySQLError (''Table '' @ name @ '' does not exist'')), w)
      | Some rows \<Rightarrow> (Inr rows, w))"

definition set_posts :: "string \<Rightarrow> post_row list \<Rightarrow> (unit, world) py" where
  "set_posts name rows =
     py_modify (\<lambda>w. w\<lparr>db_session := (db_session w)\<lparr>posts := (posts (db_session w))(name \<mapsto> rows)\<rparr>\<rparr>)"

definition set_users :: "string \<Rightarrow> user_row list \<Rightarrow> (unit, world) py" where
  "set_users name rows =
     py_modify (\<lambda>w. w\<lparr>db_session := (db_session w)\<lparr>users := (users (db_session w))(name \<mapsto> rows)\<rparr>\<rparr>)"

text \<open>\<open>AUTO_INCREMENT\<close>: an identifier above all those in the table.\<close>

definition next_id :: "nat list \<Rightarrow> nat" where
  "next_id ids = Suc (fold max ids 0)"

subsection \<open>The statements\<close>

text \<open>
  \<open>SELECT ... FROM {site_prefix}posts WHERE post_modified >= %s AND post_status = 'publish'
  AND post_type IN ('post', 'page') ORDER BY post_modified DESC\<close>, and \<open>fetchall\<close>.
  String comparison is exact (a binary collation).
\<close>

definition select_recent_posts :: "string \<Rightarrow> int \<Rightarrow> (post_row list, world) py" where
  "select_recent_posts table cutoff_time =
     py_then db_call
       (py_bind (posts_table table) (\<lambda>rows.
          py_return
            (sort_key (\<lambda>p. - post_modified p)
               (filter (\<lambda>p. cutoff_time \<le> post_modified p \<and> post_status p = ''publish''
                              \<and> (post_type p = ''post'' \<or> post_type p = ''page'')) rows))))"

text \<open>
  \<open>SELECT ID FROM {target_site}_posts WHERE post_title = %s AND post_type =
  'featured_content'\<close>, and \<open>fetchone\<close>.
\<close>

definition select_featured :: "string \<Rightarrow> string \<Rightarrow> (nat option, world) py" where
  "select_featured table title =
     py_then db_call
       (py_bind (posts_table table) (\<lambda>rows.
          py_return
            (case filter (\<lambda>p. post_title p = title \<and> post_type p = ''featured_content'') rows of
               [] \<Rightarrow> None
             | p # _ \<Rightarrow> Some (ID p))))"

text \<open>\<open>INSERT INTO {target_site}_posts (...) VALUES (1, NOW(), UTC_TIMESTAMP(), ...)\<close>.\<close>

definition insert_featured :: "env \<Rightarrow> string \<Rightarrow> string \<Rightarrow> string \<Rightarrow> string \<Rightarrow> string \<Rightarrow> (unit, world) py" where
  "insert_featured env table content title excerpt guid_value =
     py_then db_call
       (py_bind (posts_table table) (\<lambda>rows.
          py_then
            (set_posts table
               (rows @ [\<lparr>ID = next_id (map ID rows), post_author = 1, post_date = now env,
                         post_date_gmt = utcnow env, post_content = content,
                         post_title = title, post_excerpt = excerpt,
                         post_status = ''publish'', post_type = ''featured_content'',
                         post_modified = now env, post_modified_gmt = utcnow env,
                         guid = guid_value\<rparr>]))
            (emit (Inserted table))))"

text \<open>\<open>REPLACE(post_content, from, to)\<close> and \<open>post_content LIKE '%from%'\<close>.\<close>

fun contains :: "string \<Rightarrow> string \<Rightarrow> bool" where
  "contains [] sub = (sub = [])"
| "contains (c # s) sub = (take (length sub) (c # s) = sub \<or> contains s sub)"

fun replace :: "string \<Rightarrow> string \<Rightarrow> string \<Rightarrow> string" where
  "replace [] old new = []"
| "replace (c # s) old new =
     (if old \<noteq> [] \<and> take (length old) (c # s) = old
      then new @ replace (drop (length old) (c # s)) old new
      else c # replace s old new)"

text \<open>
  \<open>UPDATE {prefix}posts SET post_content = REPLACE(...) WHERE post_content LIKE ...\<close>;
  the result is \<open>cursor.rowcount\<close>, the number of rows changed.
\<close>

definition update_links :: "string \<Rightarrow> string \<Rightarrow> string \<Rightarrow> (nat, world) py" where
  "update_links table placeholder url =
     py_then db_call
       (py_bind (posts_table table) (\<lambda>rows.
          py_then
            (set_posts table
               (map (\<lambda>p. if contains (post_content p) placeholder
                          then p\<lparr>post_content := replace (post_content p) placeholder url\<rparr>
                          else p) rows))
            (py_return
               (length (filter (\<lambda>p. contains (post_content p) placeholder
                            \<and> replace (post_content p) placeholder url \<noteq> post_content p) rows)))))"

definition select_new_users :: "string \<Rightarrow> int \<Rightarrow> (user_row list, world) py" where
  "select_new_users table cutoff_time =
     py_then db_call
       (py_bind (users_table table) (\<lambda>rows.
          py_return (filter (\<lambda>u. cutoff_time \<le> user_registered u) rows)))"

definition select_user_by_email :: "string \<Rightarrow> string \<Rightarrow> (nat option, world) py" where
  "select_user_by_email table email =
     py_then db_call
       (py_bind (users_table table) (\<lambda>rows.
          py_return
            (case filter (\<lambda>u. user_email u = email) rows of
               [] \<Rightarrow> None
             | u # _ \<Rightarrow> Some (user_ID u))))"

definition insert_user :: "string \<Rightarrow> user_row \<Rightarrow> (unit, world) py" where
  "insert_user table user =
     py_then db_call
       (py_bind (users_table table) (\<lambda>rows.
          py_then
            (set_users table
               (rows @ [\<lparr>user_ID = next_id (map user_ID rows), user_login = user_login user,
                         user_email = user_email user,
                         user_registered = user_registered user,
                         display_name = display_name user, user_status = 0\<rparr>]))
            (emit (Inserted table))))"

definition delete_revisions :: "string \<Rightarrow> int \<Rightarrow> (nat, world) py" where
  "delete_revisions table cutoff_date =
     py_then db_call
       (py_bind (posts_table table) (\<lambda>rows.
          py_then
            (set_posts table
               (filter (\<lambda>p. \<not> (post_type p = ''revision'' \<and> post_modified p < cutoff_date)) rows))
            (py_return
               (length (filter (\<lambda>p. post_type p = ''revision'' \<and> post_modified p < cutoff_date)
                  rows)))))"

subsection \<open>ContentSync\<close>

text \<open>The locals \<open>conn\<close> and \<open>cursor\<close> of a method: bound or not.\<close>

record frame =
  conn :: bool
  cursor :: bool

definition no_locals :: frame where
  "no_locals = \<lparr>conn = False, cursor = False\<rparr>"

definition bind_conn :: "(unit, frame \<times> world) py" where
  "bind_conn = assign (\<lambda>l. l\<lparr>conn := True\<rparr>)"

definition bind_cursor :: "(unit, frame \<times> world) py" where
  "bind_cursor = assign (\<lambda>l. l\<lparr>cursor := True\<rparr>)"

text \<open>\<open>if conn: conn.rollback()\<close> and \<open>if cursor: cursor.close()\<close>.\<close>

definition if_conn_rollback :: "(unit, frame \<times> world) py" where
  "if_conn_rollback = py_then (read_local conn ''conn'') (in_world rollback)"

definition if_cursor_close :: "(unit, frame \<times> world) py" where
  "if_cursor_close = py_then (read_local cursor ''cursor'') (in_world cursor_close)"

definition get_db_connection :: "(unit, world) py" where
  "get_db_connection =
     py_bind (py_gets db_connection) (\<lambda>db_connection.
       if \<not> db_connection
       then py_try
              (py_then connect (logger INFO ''Database connection established''))
              (except_class MySQLError (\<lambda>e.
                 py_then (logger ERROR (''Error connecting to database: '' @ exc_msg e))
                         (py_raise e)))
       else py_return ())"

definition get_recent_posts :: "env \<Rightarrow> string \<Rightarrow> int \<Rightarrow> (post_row list, world) py" where
  "get_recent_posts env site_prefix hours =
     with_frame no_locals
       (py_finally
          (py_try
             (py_then (in_world get_db_connection)
             (py_then bind_conn
             (py_then (in_world conn_cursor)
             (py_then bind_cursor
             (py_bind (py_lift (cutoff (now env) 0 hours)) (\<lambda>cutoff_time.
              py_bind (in_world (select_recent_posts (site_prefix @ ''posts'') cutoff_time))
                (\<lambda>posts.
              py_then (in_world (logger INFO (''Found '' @ str_nat (length posts)
                         @ '' recent posts for '' @ site_prefix)))
                      (py_return posts))))))))
             (except_class MySQLError (\<lambda>e.
                py_then (in_world (logger ERROR (''Error fetching recent posts: '' @ exc_msg e)))
                        (py_return []))))
          if_cursor_close)"

text \<open>The loop of \<open>sync_featured_content\<close> over the source posts, with its counter.\<close>

fun sync_featured_loop :: "env \<Rightarrow> string \<Rightarrow> post_row list \<Rightarrow> nat \<Rightarrow> (nat, world) py" where
  "sync_featured_loop env target_site [] synced_count = py_return synced_count"
| "sync_featured_loop env target_site (post # source_posts) synced_count =
     py_bind (select_featured (target_site @ ''_posts'') (post_title post)) (\<lambda>existing_post.
       case existing_post of
         None \<Rightarrow>
           py_then (insert_featured env (target_site @ ''_posts'')
                      (post_content post)
                      (''[Featured] '' @ post_title post)
                      (post_excerpt post)
                      (''featured-'' @ str_nat (ID post) @ ''-'' @ target_site))
          (py_then (logger INFO (''Synced post: '' @ post_title post))
                   (sync_featured_loop env target_site source_posts (synced_count + 1)))
       | Some _ \<Rightarrow> sync_featured_loop env target_site source_posts synced_count)"

definition sync_featured_content :: "env \<Rightarrow> string \<Rightarrow> string \<Rightarrow> (bool, world) py" where
  "sync_featured_content env source_site target_site =
     with_frame no_locals
       (py_finally
          (py_try
             (py_bind (in_world (get_recent_posts env (source_site @ ''_'') 24))
                (\<lambda>source_posts.
                if source_posts = []
                then py_then (in_world (logger INFO
                                (''No recent posts found in '' @ source_site)))
                             (py_return True)
                else
                  py_then (in_world get_db_connection)
                 (py_then bind_conn
                 (py_then (in_world conn_cursor)
                 (py_then bind_cursor
                 (py_bind (in_world (sync_featured_loop env target_site source_posts 0))
                    (\<lambda>synced_count.
                  py_then (in_world commit)
                 (py_then (in_world (logger INFO (''Synced '' @ str_nat synced_count
                             @ '' posts from '' @ source_site @ '' to '' @ target_site)))
                          (py_return True)))))))))
             (except_class MySQLError (\<lambda>e.
                py_then (in_world (logger ERROR (''Error syncing content: '' @ exc_msg e)))
               (py_then if_conn_rollback
                        (py_return False)))))
          if_cursor_close)"

definition update_cross_site_links :: "env \<Rightarrow> string \<Rightarrow> string \<Rightarrow> (bool, world) py" where
  "update_cross_site_links env site1_prefix site2_prefix =
     with_frame no_locals
       (py_finally
          (py_try
             (py_then (in_world get_db_connection)
             (py_then bind_conn
             (py_then (in_world conn_cursor)
             (py_then bind_cursor
             (py_bind (in_world (update_links (site1_prefix @ ''posts'') ''CROSS_LINK_SITE2''
                         (''http://'' @ SITE2_DOMAIN (cfg env)))) (\<lambda>affected1.
              py_bind (in_world (update_links (site2_prefix @ ''posts'') ''CROSS_LINK_SITE1''
                         (''http://'' @ SITE1_DOMAIN (cfg env)))) (\<lambda>affected2.
              py_then (in_world commit)
             (py_then (in_world (logger INFO (''Updated cross-site links: ''
                         @ str_nat (affected1 + affected2) @ '' posts affected'')))
                      (py_return True)))))))))
             (except_class MySQLError (\<lambda>e.
                py_then (in_world (logger ERROR (''Error updating cross-site links: '' @ exc_msg e)))
               (py_then if_conn_rollback
                        (py_return False)))))
          if_cursor_close)"

fun sync_user_loop :: "string \<Rightarrow> user_row list \<Rightarrow> nat \<Rightarrow> (nat, world) py" where
  "sync_user_loop target_site [] synced_count = py_return synced_count"
| "sync_user_loop target_site (user # new_users) synced_count =
     py_bind (select_user_by_email (target_site @ ''_users'') (user_email user))
       (\<lambda>existing_user.
       case existing_user of
         None \<Rightarrow>
           py_then (insert_user (target_site @ ''_users'') user)
          (py_then (logger INFO (''Synced user: '' @ user_email user))
                   (sync_user_loop target_site new_users (synced_count + 1)))
       | Some _ \<Rightarrow> sync_user_loop target_site new_users synced_count)"

definition sync_user_data :: "env \<Rightarrow> string \<Rightarrow> string \<Rightarrow> (bool, world) py" where
  "sync_user_data env source_site target_site =
     with_frame no_locals
       (py_finally
          (py_try
             (py_then (in_world get_db_connection)
             (py_then bind_conn
             (py_then (in_world conn_cursor)
             (py_then bind_cursor
             (py_bind (py_lift (cutoff (now env) 0 24)) (\<lambda>cutoff_time.
              py_bind (in_world (select_new_users (source_site @ ''_users'') cutoff_time))
                (\<lambda>new_users.
              py_bind (in_world (sync_user_loop target_site new_users 0)) (\<lambda>synced_count.
              py_then (in_world commit)
             (py_then (in_world (logger INFO (''Synced '' @ str_nat synced_count
                         @ '' users from '' @ source_site @ '' to '' @ target_site)))
                      (py_return True))))))))))
             (except_class MySQLError (\<lambda>e.
                py_then (in_world (logger ERROR (''Error syncing user data: '' @ exc_msg e)))
               (py_then if_conn_rollback
                        (py_return False)))))
          if_cursor_close)"

definition cleanup_old_revisions :: "env \<Rightarrow> string \<Rightarrow> int \<Rightarrow> (bool, world) py" where
  "cleanup_old_revisions env site_prefix days =
     with_frame no_locals
       (py_finally
          (py_try
             (py_then (in_world get_db_connection)
             (py_then bind_conn
             (py_then (in_world conn_cursor)
             (py_then bind_cursor
             (py_bind (py_lift (cutoff (now env) days 0)) (\<lambda>cutoff_date.
              py_bind (in_world (delete_revisions (site_prefix @ ''posts'') cutoff_date))
                (\<lambda>deleted_count.
              py_then (in_world commit)
             (py_then (in_world (logger INFO (''Deleted '' @ str_nat deleted_count
                         @ '' old revisions from '' @ site_prefix)))
                      (py_return True)))))))))
             (except_class MySQLError (\<lambda>e.
                py_then (in_world (logger ERROR (''Error cleaning up revisions: '' @ exc_msg e)))
               (py_then if_conn_rollback
                        (py_return False)))))
          if_cursor_close)"

text \<open>
  \<open>run_full_sync\<close> calls the seven steps and drops what they return; the \<open>finally\<close> block
  closes the connection when there is one.
\<close>

definition run_full_sync :: "env \<Rightarrow> (bool, world) py" where
  "run_full_sync env =
     py_finally
       (py_try
          (py_then (logger INFO ''Starting full content synchronization'')
          (py_then (sync_featured_content env ''site1'' ''site2'')
          (py_then (sync_featured_content env ''site2'' ''site1'')
          (py_then (update_cross_site_links env ''site1'' ''site2'')
          (py_then (sync_user_data env ''site1'' ''site2'')
          (py_then (sync_user_data env ''site2'' ''site1'')
          (py_then (cleanup_old_revisions env ''site1'' 30)
          (py_then (cleanup_old_revisions env ''site2'' 30)
          (py_then (logger INFO ''Full content synchronization completed successfully'')
                   (py_return True))))))))))
          (except_Exception (\<lambda>e.
             py_then (logger ERROR (''Error in full sync process: '' @ exc_msg e))
                     (py_return False))))
       (py_bind (py_gets db_connection) (\<lambda>db_connection.
          if db_connection then connection_close else py_return ()))"

section \<open>scheduler.py\<close>

subsection \<open>The jobs\<close>

definition run_backup_job :: "env \<Rightarrow> (unit, world) py" where
  "run_backup_job env =
     py_try
       (py_then (logger INFO ''Starting scheduled database backup'')
       (py_bind (full_backup_process env) (\<lambda>success.
          if success
          then logger INFO ''Scheduled database backup completed successfully''
          else logger ERROR ''Scheduled database backup failed'')))
       (except_Exception (\<lambda>e.
          logger ERROR (''Error in scheduled backup job: '' @ exc_msg e)))"

definition run_content_sync_job :: "env \<Rightarrow> (unit, world) py" where
  "run_content_sync_job env =
     py_try
       (py_then (logger INFO ''Starting scheduled content synchronization'')
       (py_bind (run_full_sync env) (\<lambda>success.
          if success
          then logger INFO ''Scheduled content synchronization completed successfully''
          else logger ERROR ''Scheduled content synchronization failed'')))
       (except_Exception (\<lambda>e.
          logger ERROR (''Error in scheduled content sync job: '' @ exc_msg e)))"

definition run_cleanup_job :: "env \<Rightarrow> (unit, world) py" where
  "run_cleanup_job env =
     py_try
       (py_then (logger INFO ''Starting scheduled cleanup job'')
       (py_then (cleanup_old_backups env (BACKUP_RETENTION_DAYS (cfg env)))
       (py_then (r2_cleanup_old_backups env ''backups/'' (BACKUP_RETENTION_DAYS (cfg env)))
                (logger INFO ''Scheduled cleanup job completed successfully''))))
       (except_Exception (\<lambda>e.
          logger ERROR (''Error in scheduled cleanup job: '' @ exc_msg e)))"

definition check_database_health :: "(bool, world) py" where
  "check_database_health =
     py_try
       (py_then get_db_connection
       (py_then conn_cursor
       (py_then db_call
       (py_then cursor_close
                (py_return True)))))
       (except_Exception (\<lambda>e.
          py_then (logger ERROR (''Database health check failed: '' @ exc_msg e))
                  (py_return False)))"

definition check_r2_health :: "env \<Rightarrow> (bool, world) py" where
  "check_r2_health env =
     py_try
       (py_then (list_objects env [] 1) (py_return True))
       (except_Exception (\<lambda>e.
          py_then (logger ERROR (''R2 health check failed: '' @ exc_msg e))
                  (py_return False)))"

definition run_health_check :: "env \<Rightarrow> (unit, world) py" where
  "run_health_check env =
     py_try
       (py_then (logger INFO ''Running health check'')
       (py_bind check_database_health (\<lambda>db_healthy.
        py_bind (check_r2_health env) (\<lambda>r2_healthy.
          if db_healthy \<and> r2_healthy
          then logger INFO ''Health check passed - all services healthy''
          else logger WARNING (''Health check issues - DB: '' @ str_bool db_healthy
                 @ '', R2: '' @ str_bool r2_healthy)))))
       (except_Exception (\<lambda>e.
          logger ERROR (''Error in health check: '' @ exc_msg e)))"

subsection \<open>Running a job by name\<close>

definition job_map :: "env \<Rightarrow> string \<rightharpoonup> (unit, world) py" where
  "job_map env =
     [''backup'' \<mapsto> run_backup_job env,
      ''content_sync'' \<mapsto> run_content_sync_job env,
      ''cleanup'' \<mapsto> run_cleanup_job env,
      ''health_check'' \<mapsto> run_health_check env]"

definition run_job_once :: "env \<Rightarrow> string \<Rightarrow> (bool, world) py" where
  "run_job_once env job_name =
     (case job_map env job_name of
        None \<Rightarrow> py_then (logger ERROR (''Unknown job: '' @ job_name)) (py_return False)
      | Some job \<Rightarrow>
          py_try
            (py_then (logger INFO (''Running job immediately: '' @ job_name))
            (py_then job
                     (py_return True)))
            (except_Exception (\<lambda>e.
               py_then (logger ERROR (''Error running job '' @ job_name @ '': '' @ exc_msg e))
                       (py_return False))))"

subsection \<open>The polling loop\<close>

text \<open>
  \<open>schedule.run_pending()\<close> belongs to the \<open>schedule\<close> library, which decides from the clock
  which of the four registered jobs are due. One tick of the loop is therefore given from
  outside: either a \<open>KeyboardInterrupt\<close> arrives during the call, or the library runs the
  due jobs in order and then returns or raises an exception of its own. The second
  component of a script entry tells whether the \<open>time.sleep(60)\<close> of that iteration
  completes (\<open>True\<close>) or is cut by a \<open>KeyboardInterrupt\<close>.
\<close>

datatype job = Backup | ContentSync | Cleanup | HealthCheck

datatype tick = Interrupt | Due "job list" "py_exc option"

fun run_job :: "env \<Rightarrow> job \<Rightarrow> (unit, world) py" where
  "run_job env Backup = run_backup_job env"
| "run_job env ContentSync = run_content_sync_job env"
| "run_job env Cleanup = run_cleanup_job env"
| "run_job env HealthCheck = run_health_check env"

fun run_jobs :: "env \<Rightarrow> job list \<Rightarrow> (unit, world) py" where
  "run_jobs env [] = py_return ()"
| "run_jobs env (j # js) = py_then (run_job env j) (run_jobs env js)"

definition run_pending :: "env \<Rightarrow> job list \<Rightarrow> py_exc option \<Rightarrow> (unit, world) py" where
  "run_pending env jobs library_exc =
     py_then (emit RunPending)
    (py_then (run_jobs env jobs)
             (case library_exc of None \<Rightarrow> py_return () | Some e \<Rightarrow> py_raise e))"

text \<open>
  What the \<open>try\<close> block of one iteration (\<open>schedule.run_pending(); time.sleep(60)\<close>) ends
  with.
\<close>

datatype try_outcome = Completed | KeyboardInterrupt | Raised py_exc

definition poll :: "env \<Rightarrow> tick \<Rightarrow> bool \<Rightarrow> (try_outcome, world) py" where
  "poll env t sleep_completes =
     (case t of
        Interrupt \<Rightarrow> py_then (emit RunPending) (py_return KeyboardInterrupt)
      | Due jobs library_exc \<Rightarrow>
          (\<lambda>w. case run_pending env jobs library_exc w of
                  (Inl e, w') \<Rightarrow> (Inr (Raised e), w')
                | (Inr _, w') \<Rightarrow>
                    if sleep_completes
                    then py_then (emit (Sleep 60)) (py_return Completed) w'
                    else (Inr KeyboardInterrupt, w')))"

text \<open>
  The loop over a script of ticks. \<open>Polling\<close>: the script is used up and the loop is still
  running. \<open>Stopped\<close>: the loop was left by \<open>break\<close>. \<open>Killed\<close>: a \<open>KeyboardInterrupt\<close> cut
  the sleep of the \<open>except Exception\<close> clause and left \<open>run\<close>.
\<close>

datatype loop_status = Polling | Stopped | Killed

fun scheduler_loop :: "env \<Rightarrow> (tick \<times> bool) list \<Rightarrow> (loop_status, world) py" where
  "scheduler_loop env [] = py_return Polling"
| "scheduler_loop env (entry # script) =
     py_bind (poll env (fst entry) (snd entry)) (\<lambda>outcome.
       case outcome of
         Completed \<Rightarrow> scheduler_loop env script
       | KeyboardInterrupt \<Rightarrow>
           py_then (logger INFO ''Scheduler stopped by user'') (py_return Stopped)
       | Raised e \<Rightarrow>
           py_then (logger ERROR (''Error in scheduler loop: '' @ exc_msg e))
             (if snd entry
              then py_then (emit (Sleep 60)) (scheduler_loop env script)
              else py_return Killed))"

definition run :: "env \<Rightarrow> (tick \<times> bool) list \<Rightarrow> (loop_status, world) py" where
  "run env script =
     py_then (logger INFO ''Starting automation scheduler'')
    (py_then (run_health_check env)
             (scheduler_loop env script))"

section \<open>Concrete runs\<close>

text \<open>
  An environment in which every collaborator answers, at midnight of 2025-11-04 UTC, and
  an empty world; the scenarios below change one thing each.
\<close>

definition secrets_only :: "string \<rightharpoonup> string" where
  "secrets_only =
     [''MYSQL_PASSWORD'' \<mapsto> ''pw'', ''REDIS_PASSWORD'' \<mapsto> ''rpw'',
      ''R2_ACCESS_KEY_ID'' \<mapsto> ''id'', ''R2_SECRET_ACCESS_KEY'' \<mapsto> ''key'',
      ''R2_ENDPOINT'' \<mapsto> ''https://r2.example'']"

definition example_config :: config where
  "example_config =
     \<lparr>MYSQL_HOST = ''mysql'', MYSQL_DATABASE = ''content_ops'', MYSQL_USER = ''content_user'',
      MYSQL_PASSWORD = ''pw'', REDIS_HOST = ''redis'', REDIS_PASSWORD = ''rpw'',
      REDIS_PORT = 6379, R2_ACCOUNT_ID = [], R2_ACCESS_KEY_ID = ''id'',
      R2_SECRET_ACCESS_KEY = ''key'', R2_BUCKET_NAME = ''content-ops-backups'',
      R2_ENDPOINT = ''https://r2.example'', SITE1_DOMAIN = ''site1.localhost'',
      SITE2_DOMAIN = ''site2.localhost'', BACKUP_RETENTION_DAYS = 30, TZ = ''UTC''\<rparr>"

definition example_env :: env where
  "example_env =
     \<lparr>cfg = example_config, now = 1762214400000000, utcnow = 1762214400000000,
      timestamp = ''20251104_000000'',
      open_error = (\<lambda>path. None),
      subprocess_run = (\<lambda>cmd. CompletedProcess 0 []),
      unlink_error = (\<lambda>path. None),
      r2_upload_error = (\<lambda>key. None),
      r2_list_error = None,
      r2_delete_error = (\<lambda>key. None)\<rparr>"

definition empty_database :: database where
  "empty_database = \<lparr>posts = Map.empty, users = Map.empty\<rparr>"

definition empty_world :: world where
  "empty_world =
     \<lparr>trace = [], files = [], bucket = [], db_connection = False,
      db_committed = empty_database, db_session = empty_database, db_faults = []\<rparr>"

text \<open>The producer exits with status 2.\<close>

definition failing_producer_env :: env where
  "failing_producer_env =
     example_env\<lparr>subprocess_run := (\<lambda>cmd. CompletedProcess 2 ''mysqldump: Got error: 2002'')\<rparr>"

text \<open>
  Two artifacts of 31 days ago and one of 29 days ago; deleting the first is refused.
\<close>

definition old_backups_world :: world where
  "old_backups_world =
     empty_world\<lparr>files :=
       [(''/app/backups/old1.sql'', 1759536000000000),
        (''/app/backups/old2.sql'', 1759536000000000),
        (''/app/backups/recent.sql'', 1759708800000000)]\<rparr>"

definition locked_file_env :: env where
  "locked_file_env =
     example_env\<lparr>unlink_error :=
       [''/app/backups/old1.sql'' \<mapsto> Exc OSError ''Permission denied'']\<rparr>"

text \<open>The same for the bucket: two old objects, and deleting the first is refused.\<close>

definition old_objects_world :: world where
  "old_objects_world =
     empty_world\<lparr>bucket :=
       [(''backups/old1.sql'', 1759536000000000),
        (''backups/old2.sql'', 1759536000000000)]\<rparr>"

definition locked_object_env :: env where
  "locked_object_env =
     example_env\<lparr>r2_delete_error :=
       [''backups/old1.sql'' \<mapsto> Exc ClientError ''AccessDenied'']\<rparr>"

text \<open>The server cannot be reached: the first request to it fails.\<close>

definition unreachable_db_world :: world where
  "unreachable_db_world = empty_world\<lparr>db_faults := [Some ''Can not connect to MySQL server'']\<rparr>"

text \<open>
  Site 1 has one published post, modified an hour ago; site 2 has none.
\<close>

definition hello_post :: post_row where
  "hello_post =
     \<lparr>ID = 7, post_author = 1, post_date = 1762210800000000,
      post_date_gmt = 1762210800000000, post_content = ''Hello, world'',
      post_title = ''Hello'', post_excerpt = ''Hi'', post_status = ''publish'',
      post_type = ''post'', post_modified = 1762210800000000,
      post_modified_gmt = 1762210800000000, guid = ''http://site1.localhost/?p=7''\<rparr>"

definition one_post_database :: database where
  "one_post_database =
     \<lparr>posts = [''site1_posts'' \<mapsto> [hello_post], ''site2_posts'' \<mapsto> []],
      users = [''site1_users'' \<mapsto> [], ''site2_users'' \<mapsto> []]\<rparr>"

definition one_post_world :: world where
  "one_post_world =
     empty_world\<lparr>db_committed := one_post_database, db_session := one_post_database\<rparr>"

section \<open>Measuring a run\<close>

text \<open>The rows of a posts table, and the number of inserts into a table that a trace records.\<close>

definition rows_of :: "database \<Rightarrow> string \<Rightarrow> post_row list" where
  "rows_of d table = (case posts d table of None \<Rightarrow> [] | Some rows \<Rightarrow> rows)"

definition inserts :: "string \<Rightarrow> event list \<Rightarrow> nat" where
  "inserts table tr = length (filter (\<lambda>ev. ev = Inserted table) tr)"

text \<open>A line added to the log, and the exception of the unbound local \<open>cursor\<close>.\<close>

definition logged :: "log_level \<Rightarrow> string \<Rightarrow> world \<Rightarrow> world" where
  "logged lvl msg w = w\<lparr>trace := trace w @ [Log lvl msg]\<rparr>"


section \<open>Runs of the synchronisation\<close>

text \<open>The copy of \<open>hello_post\<close> that \<open>sync_featured_content\<close> inserts, and the world after one run.\<close>

definition featured_hello :: "nat \<Rightarrow> post_row" where
  "featured_hello n =
     \<lparr>ID = n, post_author = 1, post_date = 1762214400000000,
      post_date_gmt = 1762214400000000, post_content = ''Hello, world'',
      post_title = ''[Featured] Hello'', post_excerpt = ''Hi'', post_status = ''publish'',
      post_type = ''featured_content'', post_modified = 1762214400000000,
      post_modified_gmt = 1762214400000000, guid = ''featured-7-site2''\<rparr>"

definition synced_once_database :: database where
  "synced_once_database =
     \<lparr>posts = [''site1_posts'' \<mapsto> [hello_post], ''site2_posts'' \<mapsto> [featured_hello 1]],
      users = [''site1_users'' \<mapsto> [], ''site2_users'' \<mapsto> []]\<rparr>"

definition synced_once_world :: world where
  "synced_once_world =
     \<lparr>trace = [Log INFO ''Database connection established'',
               Log INFO ''Found 1 recent posts for site1_'',
               Inserted ''site2_posts'',
               Log INFO ''Synced post: Hello'',
               Log INFO ''Synced 1 posts from site1 to site2''],
      files = [], bucket = [], db_connection = True,
      db_committed = synced_once_database, db_session = synced_once_database,
      db_faults = []\<rparr>"


text \<open>
  Site 1 has two recent posts; the eighth request to the server, the insert of the
  second copy, fails.
\<close>

definition news_post :: post_row where
  "news_post =
     \<lparr>ID = 8, post_author = 1, post_date = 1762207200000000,
      post_date_gmt = 1762207200000000, post_content = ''Some news'',
      post_title = ''News'', post_excerpt = ''News'', post_status = ''publish'',
      post_type = ''post'', post_modified = 1762207200000000,
      post_modified_gmt = 1762207200000000, guid = ''http://site1.localhost/?p=8''\<rparr>"



text \<open>
  The seven calls of \<open>run_full_sync\<close>, in its order, and what a list of calls made one after
  another gives, up to the first that raises.
\<close>

definition sync_steps :: "env \<Rightarrow> (bool, world) py list" where
  "sync_steps env =
     [sync_featured_content env ''site1'' ''site2'',
      sync_featured_content env ''site2'' ''site1'',
      update_cross_site_links env ''site1'' ''site2'',
      sync_user_data env ''site1'' ''site2'',
      sync_user_data env ''site2'' ''site1'',
      cleanup_old_revisions env ''site1'' 30,
      cleanup_old_revisions env ''site2'' 30]"

fun outcomes :: "('a, 's) py list \<Rightarrow> 's \<Rightarrow> (py_exc + 'a) list" where
  "outcomes [] s = []"
| "outcomes (m # ms) s =
     (case m s of
        (Inl e, s') \<Rightarrow> [Inl e]
      | (Inr x, s') \<Rightarrow> Inr x # outcomes ms s')"

text \<open>The world in which the seven calls start: after the first line of the log.\<close>

definition started :: "world \<Rightarrow> world" where
  "started w = snd (logger INFO ''Starting full content synchronization'' w)"

text \<open>
  Both sites have a recent post; the statements that check for an existing copy and
  those that select the new users fail (requests 5, 10, 16 and 19 of 20).
\<close>

definition both_sites_database :: database where
  "both_sites_database =
     \<lparr>posts = [''site1_posts'' \<mapsto> [hello_post], ''site2_posts'' \<mapsto> [news_post]],
      users = [''site1_users'' \<mapsto> [], ''site2_users'' \<mapsto> []]\<rparr>"

definition both_sites_world :: "bool \<Rightarrow> string option list \<Rightarrow> event list \<Rightarrow> world" where
  "both_sites_world connected faults tr =
     \<lparr>trace = tr, files = [], bucket = [], db_connection = connected,
      db_committed = both_sites_database, db_session = both_sites_database,
      db_faults = faults\<rparr>"

definition failing_steps_world :: world where
  "failing_steps_world =
     both_sites_world False
       [None, None, None, None, Some ''Lost connection'',
        None, None, None, None, Some ''Lost connection'',
        None, None, None, None, None, Some ''Lost connection'',
        None, None, Some ''Lost connection'', None]
       []"


section \<open>Properties\<close>

lemmas py_defs = py_return_def py_raise_def py_bind_def py_then_def py_try_def py_finally_def
  except_Exception_def except_class_def py_gets_def py_modify_def py_lift_def logger_def emit_def

lemmas example_defs = example_env_def example_config_def empty_world_def empty_database_def

subsection \<open>Configuration loading\<close>

text \<open>
  C7, as the specification states it: loading fails whenever the database host, name or
  user, the bucket, a site domain or the backup retention is absent. The loader does
  otherwise: with nothing but the five secrets in the environment it returns a
  configuration, and takes the defaults for all of those.
\<close>

theorem get_config_defaults_counterexample:
  "get_config Map.empty Map.empty secrets_only = Inr example_config"
  by (simp add: get_config_def Let_def required_keys_def config_get_def truthy_def
      load_dotenv_def getenv_def int_getenv_def secrets_only_def example_config_def)

text \<open>
  C7, amended: configuration loading fails (\<open>get_config\<close> raises \<open>ValueError\<close> instead of
  returning a configuration) exactly when a numeric setting that is present does not
  parse, or one of the settings that the loader requires is absent or empty: the MySQL
  password, the Redis password, the two object-storage keys and the object-storage
  endpoint. The database host, name and user, the bucket, the two site domains and the
  backup retention are not required: when absent they take their defaults (30 days for
  the retention).
\<close>

theorem get_config_raises_iff:
  "(isl (get_config py_int dotenv environ) \<longleftrightarrow>
      isl (int_getenv py_int (load_dotenv dotenv environ) ''REDIS_PORT'' 6379)
      \<or> isl (int_getenv py_int (load_dotenv dotenv environ) ''BACKUP_RETENTION_DAYS'' 30)
      \<or> (\<exists>key \<in> set required_keys. getenv (load_dotenv dotenv environ) key [] = []))
   \<and> (\<forall>e. get_config py_int dotenv environ = Inl e \<longrightarrow> exc_cls e = ValueError)
   \<and> (\<forall>c. get_config py_int dotenv environ = Inr c \<longrightarrow>
        MYSQL_HOST c = getenv (load_dotenv dotenv environ) ''MYSQL_HOST'' ''mysql''
        \<and> MYSQL_DATABASE c = getenv (load_dotenv dotenv environ) ''MYSQL_DATABASE'' ''content_ops''
        \<and> MYSQL_USER c = getenv (load_dotenv dotenv environ) ''MYSQL_USER'' ''content_user''
        \<and> R2_BUCKET_NAME c =
            getenv (load_dotenv dotenv environ) ''R2_BUCKET_NAME'' ''content-ops-backups''
        \<and> SITE1_DOMAIN c = getenv (load_dotenv dotenv environ) ''SITE1_DOMAIN'' ''site1.localhost''
        \<and> SITE2_DOMAIN c = getenv (load_dotenv dotenv environ) ''SITE2_DOMAIN'' ''site2.localhost''
        \<and> int_getenv py_int (load_dotenv dotenv environ) ''BACKUP_RETENTION_DAYS'' 30
            = Inr (BACKUP_RETENTION_DAYS c)
        \<and> (load_dotenv dotenv environ ''BACKUP_RETENTION_DAYS'' = None \<longrightarrow>
              BACKUP_RETENTION_DAYS c = 30))"
proof (intro conjI allI impI)
  show "isl (get_config py_int dotenv environ) \<longleftrightarrow>
      isl (int_getenv py_int (load_dotenv dotenv environ) ''REDIS_PORT'' 6379)
      \<or> isl (int_getenv py_int (load_dotenv dotenv environ) ''BACKUP_RETENTION_DAYS'' 30)
      \<or> (\<exists>key \<in> set required_keys. getenv (load_dotenv dotenv environ) key [] = [])"
    by (auto simp: get_config_def Let_def required_keys_def config_get_def truthy_def
        split: sum.splits)
next
  fix e
  assume "get_config py_int dotenv environ = Inl e"
  then show "exc_cls e = ValueError"
    by (auto simp: get_config_def Let_def int_getenv_def
        split: sum.splits if_splits option.splits)
next
  fix c
  assume "get_config py_int dotenv environ = Inr c"
  then have c: "MYSQL_HOST c = getenv (load_dotenv dotenv environ) ''MYSQL_HOST'' ''mysql''
      \<and> MYSQL_DATABASE c = getenv (load_dotenv dotenv environ) ''MYSQL_DATABASE'' ''content_ops''
      \<and> MYSQL_USER c = getenv (load_dotenv dotenv environ) ''MYSQL_USER'' ''content_user''
      \<and> R2_BUCKET_NAME c =
          getenv (load_dotenv dotenv environ) ''R2_BUCKET_NAME'' ''content-ops-backups''
      \<and> SITE1_DOMAIN c = getenv (load_dotenv dotenv environ) ''SITE1_DOMAIN'' ''site1.localhost''
      \<and> SITE2_DOMAIN c = getenv (load_dotenv dotenv environ) ''SITE2_DOMAIN'' ''site2.localhost''
      \<and> int_getenv py_int (load_dotenv dotenv environ) ''BACKUP_RETENTION_DAYS'' 30
            = Inr (BACKUP_RETENTION_DAYS c)"
    by (auto simp: get_config_def Let_def split: sum.splits if_splits)
  from c show "MYSQL_HOST c = getenv (load_dotenv dotenv environ) ''MYSQL_HOST'' ''mysql''"
    by simp
  from c show
    "MYSQL_DATABASE c = getenv (load_dotenv dotenv environ) ''MYSQL_DATABASE'' ''content_ops''"
    by simp
  from c show "MYSQL_USER c = getenv (load_dotenv dotenv environ) ''MYSQL_USER'' ''content_user''"
    by simp
  from c show "R2_BUCKET_NAME c =
      getenv (load_dotenv dotenv environ) ''R2_BUCKET_NAME'' ''content-ops-backups''"
    by simp
  from c show
    "SITE1_DOMAIN c = getenv (load_dotenv dotenv environ) ''SITE1_DOMAIN'' ''site1.localhost''"
    by simp
  from c show
    "SITE2_DOMAIN c = getenv (load_dotenv dotenv environ) ''SITE2_DOMAIN'' ''site2.localhost''"
    by simp
  from c show r: "int_getenv py_int (load_dotenv dotenv environ) ''BACKUP_RETENTION_DAYS'' 30
            = Inr (BACKUP_RETENTION_DAYS c)"
    by simp
  assume "load_dotenv dotenv environ ''BACKUP_RETENTION_DAYS'' = None"
  with r show "BACKUP_RETENTION_DAYS c = 30"
    by (simp add: int_getenv_def)
qed

text \<open>
  At an environment that sets the MySQL password only, loading raises \<open>ValueError\<close>; at
  the environment with the five secrets it returns the defaults, the retention of 30 days
  among them.
\<close>

theorem get_config_raises_iff_witness:
  "isl (get_config Map.empty Map.empty [''MYSQL_PASSWORD'' \<mapsto> ''pw''])
   \<and> exc_cls (projl (get_config Map.empty Map.empty [''MYSQL_PASSWORD'' \<mapsto> ''pw'']))
       = ValueError
   \<and> \<not> isl (get_config Map.empty Map.empty secrets_only)
   \<and> BACKUP_RETENTION_DAYS (projr (get_config Map.empty Map.empty secrets_only)) = 30"
proof -
  have a: "isl (get_config Map.empty Map.empty [''MYSQL_PASSWORD'' \<mapsto> ''pw''])"
    using get_config_raises_iff [of Map.empty Map.empty "[''MYSQL_PASSWORD'' \<mapsto> ''pw'']"]
    by (simp add: required_keys_def getenv_def load_dotenv_def)
  then have b: "exc_cls (projl (get_config Map.empty Map.empty [''MYSQL_PASSWORD'' \<mapsto> ''pw'']))
       = ValueError"
    using get_config_raises_iff [of Map.empty Map.empty "[''MYSQL_PASSWORD'' \<mapsto> ''pw'']"]
    by (cases "get_config Map.empty Map.empty [''MYSQL_PASSWORD'' \<mapsto> ''pw'']") simp_all
  have c: "\<not> isl (get_config Map.empty Map.empty secrets_only)"
    using get_config_raises_iff [of Map.empty Map.empty secrets_only]
    by (simp add: required_keys_def getenv_def load_dotenv_def int_getenv_def secrets_only_def)
  have "load_dotenv Map.empty secrets_only ''BACKUP_RETENTION_DAYS'' = None"
    by (simp add: load_dotenv_def secrets_only_def)
  with c have d: "BACKUP_RETENTION_DAYS (projr (get_config Map.empty Map.empty secrets_only)) = 30"
    using get_config_raises_iff [of Map.empty Map.empty secrets_only]
    by (cases "get_config Map.empty Map.empty secrets_only") simp_all
  from a b c d show ?thesis by blast
qed

subsection \<open>Creating a backup\<close>

lemma create_backup_result:
  "fst (create_backup env tables w) =
     (case open_error env (backup_dir @ ''/content_ops_backup_'' @ timestamp env @ ''.sql'') of
        Some e \<Rightarrow> (if exc_cls e = SubprocessError then Inr None else Inl e)
      | None \<Rightarrow>
         (case subprocess_run env (mysqldump_cmd (cfg env) tables) of
            CompletedProcess returncode stderr \<Rightarrow>
              if returncode \<noteq> 0 then Inr None
              else Inr (Some (backup_dir @ ''/content_ops_backup_'' @ timestamp env @ ''.sql''))
          | RunRaises e \<Rightarrow> (if exc_cls e = SubprocessError then Inr None else Inl e)))"
  by (simp add: create_backup_def Let_def py_defs open_w_def
      split: option.splits proc_outcome.splits)


lemma create_backup_path_nonempty:
  "create_backup env tables w = (Inr (Some p), w1) \<Longrightarrow> p \<noteq> []"
  using create_backup_result [of env tables w]
  by (auto simp: backup_dir_def split: option.splits proc_outcome.splits if_splits)




subsection \<open>The full backup\<close>

lemma upload_file_returns: "\<not> isl (fst (upload_file env p k w))"
  by (simp add: upload_file_def py_defs split: option.splits)

lemma upload_backup_returns: "\<not> isl (fst (upload_backup env p w))"
  by (simp add: upload_backup_def py_defs Let_def split: option.splits prod.splits sum.splits)

lemma cleanup_old_backups_returns: "\<not> isl (fst (cleanup_old_backups env d w))"
  by (simp add: cleanup_old_backups_def py_defs Let_def
      split: option.splits prod.splits sum.splits)

lemma full_backup_process_result:
  "fst (full_backup_process env w) =
     (case create_backup env None w of
        (Inr (Some path), w1) \<Rightarrow> fst (upload_backup env path w1)
      | _ \<Rightarrow> Inr False)"
proof (cases "create_backup env None w")
  case (Pair r w1)
  show ?thesis
  proof (cases r)
    case (Inl e)
    with Pair show ?thesis
      by (simp add: full_backup_process_def py_defs)
  next
    case (Inr res)
    show ?thesis
    proof (cases res)
      case None
      with Pair Inr show ?thesis
        by (simp add: full_backup_process_def py_defs)
    next
      case (Some path)
      with Pair Inr have ne: "path \<noteq> []"
        using create_backup_path_nonempty by blast
      obtain u w2 where up: "upload_backup env path w1 = (u, w2)"
        by (cases "upload_backup env path w1")
      with upload_backup_returns [of env path w1] obtain b where u: "u = Inr b"
        by (cases u) auto
      obtain c w3 where
        cl: "cleanup_old_backups env (BACKUP_RETENTION_DAYS (cfg env)) w2 = (c, w3)"
        by (cases "cleanup_old_backups env (BACKUP_RETENTION_DAYS (cfg env)) w2")
      with cleanup_old_backups_returns [of env "BACKUP_RETENTION_DAYS (cfg env)" w2]
      have c: "c = Inr ()" by (cases c) auto
      from Pair Inr Some ne up u cl c show ?thesis
        by (simp add: full_backup_process_def py_bind_def py_then_def py_try_def py_return_def)
    qed
  qed
qed

lemma create_backup_unlink_irrelevant:
  "create_backup (env\<lparr>unlink_error := u\<rparr>) tables = create_backup env tables"
  by (rule ext) (simp add: create_backup_def open_w_def Let_def py_defs split: option.splits)

lemma upload_backup_unlink_irrelevant:
  "upload_backup (env\<lparr>unlink_error := u\<rparr>) p = upload_backup env p"
  by (rule ext)
     (simp add: upload_backup_def upload_file_def Let_def py_defs split: option.splits)

text \<open>
  C4: \<open>full_backup_process\<close> returns success if and only if \<open>create_backup\<close> produced an
  artifact and \<open>upload_backup\<close> of it succeeded; it always returns success or failure;
  when \<open>create_backup\<close> fails it returns failure and the bucket is as before; and the
  result is the same whichever deletions the cleanup step is refused.
\<close>

theorem full_backup_process_success:
  "(fst (full_backup_process env w) = Inr True \<longleftrightarrow>
      (\<exists>path w1. create_backup env None w = (Inr (Some path), w1)
         \<and> fst (upload_backup env path w1) = Inr True))
   \<and> (fst (full_backup_process env w) = Inr True \<or> fst (full_backup_process env w) = Inr False)
   \<and> (fst (create_backup env None w) = Inr None \<longrightarrow>
        fst (full_backup_process env w) = Inr False
        \<and> bucket (snd (full_backup_process env w)) = bucket w)
   \<and> fst (full_backup_process (env\<lparr>unlink_error := u\<rparr>) w) = fst (full_backup_process env w)"
proof (intro conjI)
  show "fst (full_backup_process env w) = Inr True \<longleftrightarrow>
      (\<exists>path w1. create_backup env None w = (Inr (Some path), w1)
         \<and> fst (upload_backup env path w1) = Inr True)"
    by (auto simp: full_backup_process_result split: prod.splits sum.splits option.splits)
  show "fst (full_backup_process env w) = Inr True \<or> fst (full_backup_process env w) = Inr False"
    using upload_backup_returns [of env]
    by (auto simp: full_backup_process_result split: prod.splits sum.splits option.splits)
       (metis (full_types) isl_def sum.collapse(2))
  show "fst (create_backup env None w) = Inr None \<longrightarrow>
        fst (full_backup_process env w) = Inr False
        \<and> bucket (snd (full_backup_process env w)) = bucket w"
    by (auto simp add: full_backup_process_def create_backup_def Let_def py_defs open_w_def
        split: option.splits proc_outcome.splits if_splits)
  show "fst (full_backup_process (env\<lparr>unlink_error := u\<rparr>) w) = fst (full_backup_process env w)"
    unfolding full_backup_process_result create_backup_unlink_irrelevant
      upload_backup_unlink_irrelevant ..
qed

lemma create_backup_example:
  "create_backup example_env None old_backups_world =
     (Inr (Some ''/app/backups/content_ops_backup_20251104_000000.sql''),
      old_backups_world\<lparr>
        trace := [Log INFO ''Creating database backup: content_ops_backup_20251104_000000.sql'',
                  Log INFO ''Backup created successfully: /app/backups/content_ops_backup_20251104_000000.sql''],
        files := files old_backups_world
                 @ [(''/app/backups/content_ops_backup_20251104_000000.sql'', 1762214400000000)]\<rparr>)"
  by (simp add: create_backup_def Let_def py_defs open_w_def remove_path_def backup_dir_def
      old_backups_world_def example_defs)

lemma upload_backup_example:
  "fst (upload_backup example_env ''/app/backups/content_ops_backup_20251104_000000.sql''
     (old_backups_world\<lparr>
        trace := [Log INFO ''Creating database backup: content_ops_backup_20251104_000000.sql'',
                  Log INFO ''Backup created successfully: /app/backups/content_ops_backup_20251104_000000.sql''],
        files := files old_backups_world
                 @ [(''/app/backups/content_ops_backup_20251104_000000.sql'', 1762214400000000)]\<rparr>))
   = Inr True"
  by (simp add: upload_backup_def upload_file_def Let_def py_defs path_exists_def
      old_backups_world_def example_defs)

text \<open>
  With a producer and a storage that answer, the full backup succeeds although the
  cleanup step is refused the deletion of an old artifact; with a producer that exits
  with status 2 it fails and nothing is uploaded.
\<close>

theorem full_backup_process_success_witness:
  "fst (full_backup_process locked_file_env old_backups_world) = Inr True
   \<and> fst (create_backup failing_producer_env None old_backups_world) = Inr None
   \<and> fst (full_backup_process failing_producer_env old_backups_world) = Inr False
   \<and> bucket (snd (full_backup_process failing_producer_env old_backups_world)) = []"
proof -
  have "fst (full_backup_process example_env old_backups_world) = Inr True"
    using full_backup_process_success [of example_env old_backups_world]
      create_backup_example upload_backup_example by blast
  then have a: "fst (full_backup_process locked_file_env old_backups_world) = Inr True"
    using full_backup_process_success [of example_env old_backups_world
        "[''/app/backups/old1.sql'' \<mapsto> Exc OSError ''Permission denied'']"]
    by (simp add: locked_file_env_def)
  have b: "fst (create_backup failing_producer_env None old_backups_world) = Inr None"
    by (simp add: create_backup_result failing_producer_env_def example_defs)
  have c: "bucket old_backups_world = []"
    by (simp add: old_backups_world_def example_defs)
  from a b c full_backup_process_success [of failing_producer_env old_backups_world]
  show ?thesis by simp
qed

subsection \<open>Cleaning up old backups\<close>

text \<open>
  C8, at a concrete run: of two artifacts older than the retention cutoff, the deletion
  of the first is refused. The error is logged, the loop is left at that point, and the
  second old artifact is still there afterwards: the batch was aborted.
\<close>

theorem cleanup_old_backups_aborts_example:
  "cleanup_old_backups locked_file_env 30 old_backups_world =
     (Inr (), old_backups_world\<lparr>trace :=
        [Log ERROR ''Error cleaning up old backups: Permission denied'']\<rparr>)
   \<and> path_exists ''/app/backups/old2.sql''
        (snd (cleanup_old_backups locked_file_env 30 old_backups_world))"
  by (simp add: cleanup_old_backups_def py_defs glob_sql_def path_parent_def path_name_def
      endswith_def backup_dir_def cutoff_def timedelta_def datetime_sub_def us_per_day_def
      us_per_hour_def datetime_min_def datetime_max_def Let_def unlink_def path_exists_def
      locked_file_env_def old_backups_world_def example_defs)

text \<open>
  The cleanup of the bucket, which the cleanup job calls next, does what the local one
  misses: a refused deletion is logged and the next old object is still deleted.
\<close>

lemma r2_cleanup_old_backups_continues_example:
  "fst (r2_cleanup_old_backups locked_object_env ''backups/'' 30 old_objects_world) = Inr 1
   \<and> bucket (snd (r2_cleanup_old_backups locked_object_env ''backups/'' 30 old_objects_world))
       = [(''backups/old1.sql'', 1759536000000000)]"
  by (simp add: r2_cleanup_old_backups_def list_objects_def delete_object_def py_defs
      startswith_def cutoff_def timedelta_def datetime_sub_def us_per_day_def
      us_per_hour_def datetime_min_def datetime_max_def Let_def remove_path_def
      str_nat.simps locked_object_env_def old_objects_world_def example_defs)

text \<open>
  Without refused deletions the local cleanup does what C8 says: the two artifacts of
  31 days ago are deleted and the one of 29 days ago is retained.
\<close>

lemma cleanup_old_backups_example:
  "files (snd (cleanup_old_backups example_env 30 old_backups_world)) =
     [(''/app/backups/recent.sql'', 1759708800000000)]"
  by (simp add: cleanup_old_backups_def py_defs glob_sql_def path_parent_def path_name_def
      endswith_def backup_dir_def cutoff_def timedelta_def datetime_sub_def us_per_day_def
      us_per_hour_def datetime_min_def datetime_max_def Let_def unlink_def remove_path_def
      old_backups_world_def example_defs)

subsection \<open>The jobs contain their failures\<close>

lemma py_try_Exception_returns:
  assumes "\<And>e s. \<not> isl (fst (h e s))"
  shows "\<not> isl (fst (py_try body (except_Exception h) s))"
  using assms by (auto simp: py_try_def except_Exception_def split: prod.splits sum.splits)

lemma logger_returns: "\<not> isl (fst (logger lvl msg s))"
  by (simp add: py_defs)

lemma run_backup_job_returns: "\<not> isl (fst (run_backup_job env w))"
  unfolding run_backup_job_def by (rule py_try_Exception_returns) (rule logger_returns)

lemma run_content_sync_job_returns: "\<not> isl (fst (run_content_sync_job env w))"
  unfolding run_content_sync_job_def by (rule py_try_Exception_returns) (rule logger_returns)

lemma run_cleanup_job_returns: "\<not> isl (fst (run_cleanup_job env w))"
  unfolding run_cleanup_job_def by (rule py_try_Exception_returns) (rule logger_returns)

lemma run_health_check_returns: "\<not> isl (fst (run_health_check env w))"
  unfolding run_health_check_def by (rule py_try_Exception_returns) (rule logger_returns)

lemma job_map_Some:
  "job_map env name = Some j \<Longrightarrow> \<not> isl (fst (j w))"
  by (auto simp: job_map_def run_backup_job_returns run_content_sync_job_returns
      run_cleanup_job_returns run_health_check_returns split: if_splits)

lemma dom_job_map:
  "dom (job_map env) = {''backup'', ''content_sync'', ''cleanup'', ''health_check''}"
  by (auto simp: job_map_def split: if_splits)

subsection \<open>Running a job by name\<close>

text \<open>
  C6, as the specification states it: running a job under a name that is not registered
  fails with a \<open>NotFoundError\<close>. It does otherwise: the call raises nothing and returns
  \<open>False\<close>.
\<close>

theorem run_job_once_unknown_counterexample:
  "fst (run_job_once example_env ''reports'' empty_world) = Inr False"
  by (simp add: run_job_once_def job_map_def py_defs)

text \<open>
  C6, amended: for every name that is not one of the four registered jobs, running that
  job by name runs nothing, logs the unknown name and returns \<open>False\<close> to the caller (no
  \<open>NotFoundError\<close> is raised); for every registered name the job is executed at once,
  whatever the schedule says, and the call returns \<open>True\<close>.
\<close>

theorem run_job_once_dispatch:
  "(name \<notin> {''backup'', ''content_sync'', ''cleanup'', ''health_check''} \<longrightarrow>
      run_job_once env name w =
        (Inr False, w\<lparr>trace := trace w @ [Log ERROR (''Unknown job: '' @ name)]\<rparr>))
   \<and> (\<forall>j. job_map env name = Some j \<longrightarrow>
        run_job_once env name w =
          (Inr True,
           snd (j (w\<lparr>trace := trace w @ [Log INFO (''Running job immediately: '' @ name)]\<rparr>))))"
proof (intro conjI impI allI)
  assume "name \<notin> {''backup'', ''content_sync'', ''cleanup'', ''health_check''}"
  then have "job_map env name = None"
    using dom_job_map [of env] by blast
  then show "run_job_once env name w =
        (Inr False, w\<lparr>trace := trace w @ [Log ERROR (''Unknown job: '' @ name)]\<rparr>)"
    by (simp add: run_job_once_def py_defs)
next
  fix j
  assume j: "job_map env name = Some j"
  let ?w = "w\<lparr>trace := trace w @ [Log INFO (''Running job immediately: '' @ name)]\<rparr>"
  obtain r w' where run: "j ?w = (r, w')" by (cases "j ?w")
  with job_map_Some [OF j, of ?w] have "r = Inr ()" by (cases r) auto
  with j run show "run_job_once env name w = (Inr True, snd (j ?w))"
    by (simp add: run_job_once_def py_defs)
qed

lemma run_cleanup_job_example:
  "files (snd (run_cleanup_job example_env
     (old_backups_world\<lparr>trace := [Log INFO ''Running job immediately: cleanup'']\<rparr>))) =
     [(''/app/backups/recent.sql'', 1759708800000000)]"
  by (simp add: run_cleanup_job_def r2_cleanup_old_backups_def list_objects_def
      cleanup_old_backups_def py_defs glob_sql_def path_parent_def path_name_def
      endswith_def startswith_def backup_dir_def cutoff_def timedelta_def datetime_sub_def
      us_per_day_def us_per_hour_def datetime_min_def datetime_max_def Let_def unlink_def
      remove_path_def str_nat.simps old_backups_world_def example_defs)

text \<open>
  An unknown name is answered with \<open>False\<close> and a log line; the cleanup job, run by name,
  deletes the two old artifacts at once.
\<close>

theorem run_job_once_dispatch_witness:
  "run_job_once example_env ''reports'' empty_world =
     (Inr False, empty_world\<lparr>trace := [Log ERROR ''Unknown job: reports'']\<rparr>)
   \<and> fst (run_job_once example_env ''cleanup'' old_backups_world) = Inr True
   \<and> files (snd (run_job_once example_env ''cleanup'' old_backups_world)) =
       [(''/app/backups/recent.sql'', 1759708800000000)]"
proof -
  have a: "run_job_once example_env ''reports'' empty_world =
     (Inr False, empty_world\<lparr>trace := [Log ERROR ''Unknown job: reports'']\<rparr>)"
    using run_job_once_dispatch [of "''reports''" example_env empty_world]
    by (simp add: empty_world_def)
  have j: "job_map example_env ''cleanup'' = Some (run_cleanup_job example_env)"
    by (simp add: job_map_def)
  have t: "trace old_backups_world = []"
    by (simp add: old_backups_world_def empty_world_def)
  have b: "run_job_once example_env ''cleanup'' old_backups_world =
      (Inr True, snd (run_cleanup_job example_env
         (old_backups_world\<lparr>trace := [Log INFO ''Running job immediately: cleanup'']\<rparr>)))"
    using run_job_once_dispatch [of "''cleanup''" example_env old_backups_world] j t
    by simp
  from a b run_cleanup_job_example show ?thesis by simp
qed

subsection \<open>The polling loop\<close>

lemma run_job_returns: "\<not> isl (fst (run_job env j w))"
  by (cases j) (simp_all add: run_backup_job_returns run_content_sync_job_returns
      run_cleanup_job_returns run_health_check_returns)

lemma run_jobs_returns: "fst (run_jobs env js w) = Inr ()"
proof (induction js arbitrary: w)
  case Nil
  show ?case by (simp add: py_defs)
next
  case (Cons j js)
  obtain r w' where j: "run_job env j w = (r, w')" by (cases "run_job env j w")
  with run_job_returns [of env j w] have "r = Inr ()" by (cases r) auto
  with j Cons show ?case by (simp add: py_bind_def py_then_def)
qed

lemma run_pending_result:
  "run_pending env jobs library_exc w =
     ((case library_exc of None \<Rightarrow> Inr () | Some e \<Rightarrow> Inl e),
      snd (run_jobs env jobs (w\<lparr>trace := trace w @ [RunPending]\<rparr>)))"
proof -
  let ?w = "w\<lparr>trace := trace w @ [RunPending]\<rparr>"
  obtain w' where "run_jobs env jobs ?w = (Inr (), w')"
    using run_jobs_returns [of env jobs ?w] by (cases "run_jobs env jobs ?w") auto
  then show ?thesis
    by (simp add: run_pending_def py_defs split: option.splits)
qed

lemma scheduler_loop_exception_step:
  "scheduler_loop env ((Due jobs (Some e), True) # script) w =
     scheduler_loop env script
       ((snd (run_jobs env jobs (w\<lparr>trace := trace w @ [RunPending]\<rparr>)))
          \<lparr>trace := trace (snd (run_jobs env jobs (w\<lparr>trace := trace w @ [RunPending]\<rparr>)))
             @ [Log ERROR (''Error in scheduler loop: '' @ exc_msg e), Sleep 60]\<rparr>)"
  by (simp add: poll_def run_pending_result py_defs)

lemma scheduler_loop_returns: "\<not> isl (fst (scheduler_loop env script w))"
proof (induction script arbitrary: w)
  case Nil
  show ?case by (simp add: py_defs)
next
  case (Cons entry script)
  obtain t s where entry: "entry = (t, s)" by (cases entry)
  show ?case
  proof (cases t)
    case Interrupt
    with entry show ?thesis by (simp add: poll_def py_defs)
  next
    case (Due jobs lib)
    with entry Cons.IH show ?thesis
      by (cases lib; cases s) (simp_all add: poll_def run_pending_result py_defs)
  qed
qed

lemma scheduler_loop_polling:
  "\<forall>entry \<in> set script. fst entry \<noteq> Interrupt \<and> snd entry \<Longrightarrow>
     fst (scheduler_loop env script w) = Inr Polling"
proof (induction script arbitrary: w)
  case Nil
  show ?case by (simp add: py_defs)
next
  case (Cons entry script)
  from Cons.prems obtain jobs lib where entry: "entry = (Due jobs lib, True)"
    by (cases entry; cases "fst entry") auto
  from Cons.prems have rest: "\<forall>entry \<in> set script. fst entry \<noteq> Interrupt \<and> snd entry"
    by simp
  show ?case
    using Cons.IH [OF rest]
    by (cases lib) (simp_all add: entry poll_def run_pending_result py_defs)
qed

lemma run_polling:
  "\<forall>entry \<in> set script. fst entry \<noteq> Interrupt \<and> snd entry \<Longrightarrow>
     fst (run env script w) = Inr Polling"
proof -
  assume script: "\<forall>entry \<in> set script. fst entry \<noteq> Interrupt \<and> snd entry"
  let ?w = "w\<lparr>trace := trace w @ [Log INFO ''Starting automation scheduler'']\<rparr>"
  obtain r w' where h: "run_health_check env ?w = (r, w')"
    by (cases "run_health_check env ?w")
  with run_health_check_returns [of env ?w] have "r = Inr ()" by (cases r) auto
  with h scheduler_loop_polling [OF script, of env w'] show ?thesis
    by (simp add: run_def py_bind_def py_then_def logger_def py_modify_def)
qed

text \<open>
  C1: an exception raised out of one tick (by \<open>schedule.run_pending\<close> itself, after the
  due jobs) is caught at the loop boundary: the loop logs it, sleeps, and goes on with the
  next tick. The loop raises nothing. As long as no keyboard interrupt arrives (neither
  during a tick nor during a sleep) the loop, and \<open>run\<close> with it, is still polling after
  any number of ticks, whatever exceptions the ticks raised: it ends only on a keyboard
  interrupt.
\<close>

theorem scheduler_loop_survives:
  "scheduler_loop env ((Due jobs (Some e), True) # script) w =
     scheduler_loop env script
       ((snd (run_jobs env jobs (w\<lparr>trace := trace w @ [RunPending]\<rparr>)))
          \<lparr>trace := trace (snd (run_jobs env jobs (w\<lparr>trace := trace w @ [RunPending]\<rparr>)))
             @ [Log ERROR (''Error in scheduler loop: '' @ exc_msg e), Sleep 60]\<rparr>)
   \<and> \<not> isl (fst (scheduler_loop env script w))
   \<and> ((\<forall>entry \<in> set script. fst entry \<noteq> Interrupt \<and> snd entry) \<longrightarrow>
        fst (scheduler_loop env script w) = Inr Polling
        \<and> fst (run env script w) = Inr Polling)
   \<and> (fst (scheduler_loop env script w) \<noteq> Inr Polling \<longrightarrow>
        (\<exists>entry \<in> set script. fst entry = Interrupt \<or> \<not> snd entry))"
  using scheduler_loop_exception_step [of env jobs e script w]
    scheduler_loop_returns [of env script w]
    scheduler_loop_polling [of script env w] run_polling [of script env w] by blast

text \<open>
  Two ticks, the first of which raises: the loop logs the exception, sleeps, polls again
  and is still polling.
\<close>

theorem scheduler_loop_survives_witness:
  "scheduler_loop example_env
     [(Due [] (Some (Exc RuntimeError ''boom'')), True), (Due [] None, True)] empty_world =
     (Inr Polling,
      empty_world\<lparr>trace :=
        [RunPending, Log ERROR ''Error in scheduler loop: boom'', Sleep 60,
         RunPending, Sleep 60]\<rparr>)
   \<and> fst (run example_env
        [(Due [] (Some (Exc RuntimeError ''boom'')), True), (Due [] None, True)] empty_world)
       = Inr Polling"
proof -
  have "scheduler_loop example_env
     [(Due [] (Some (Exc RuntimeError ''boom'')), True), (Due [] None, True)] empty_world =
     (Inr Polling,
      empty_world\<lparr>trace :=
        [RunPending, Log ERROR ''Error in scheduler loop: boom'', Sleep 60,
         RunPending, Sleep 60]\<rparr>)"
    using scheduler_loop_survives [of example_env "[]" "Exc RuntimeError ''boom''"
        "[(Due [] None, True)]" empty_world]
    by (simp add: poll_def run_pending_def py_defs empty_world_def)
  moreover have "fst (run example_env
        [(Due [] (Some (Exc RuntimeError ''boom'')), True), (Due [] None, True)] empty_world)
       = Inr Polling"
    using scheduler_loop_survives [of example_env "[]" "Exc RuntimeError ''boom''"
        "[(Due [] (Some (Exc RuntimeError ''boom'')), True), (Due [] None, True)]" empty_world]
    by simp
  ultimately show ?thesis by blast
qed

lemmas frame_defs = in_world_def assign_def with_frame_def read_local_def bind_conn_def
  bind_cursor_def if_conn_rollback_def if_cursor_close_def no_locals_def cursor_close_def

lemmas db_defs = db_call_def connect_def conn_cursor_def commit_def rollback_def
  connection_close_def posts_table_def users_table_def set_posts_def set_users_def
  get_db_connection_def

lemmas date_defs = cutoff_def timedelta_def datetime_sub_def us_per_day_def us_per_hour_def
  datetime_min_def datetime_max_def

subsection \<open>The effect of the requests to the server\<close>









subsection \<open>Fetching the recent posts\<close>



lemma logged_simps [simp]:
  "db_committed (logged lvl msg w) = db_committed w"
  "db_session (logged lvl msg w) = db_session w"
  "db_connection (logged lvl msg w) = db_connection w"
  "inserts T (trace (logged lvl msg w)) = inserts T (trace w)"
  by (simp_all add: logged_def inserts_def)



text \<open>
  C9, at a concrete run: no connection is open and the server cannot be reached.
  \<open>get_recent_posts\<close> logs the error and is about to return the empty list, but its
  \<open>finally\<close> block reads the local \<open>cursor\<close>, which was never bound: the call ends with
  \<open>UnboundLocalError\<close> instead of returning an empty sequence.
\<close>

theorem get_recent_posts_unreachable_example:
  "get_recent_posts example_env ''site1_'' 24 unreachable_db_world =
     (Inl (Exc UnboundLocalError ''cannot access local variable cursor''),
      empty_world\<lparr>trace :=
        [Log ERROR ''Error connecting to database: Can not connect to MySQL server'',
         Log ERROR ''Error fetching recent posts: Can not connect to MySQL server'']\<rparr>)"
  by (simp add: get_recent_posts_def py_defs frame_defs db_defs unreachable_db_world_def
      example_defs)

subsection \<open>Synchronising featured content\<close>






lemmas sync_defs = sync_featured_content_def get_recent_posts_def select_recent_posts_def
  select_featured_def insert_featured_def next_id_def

lemmas run_defs = one_post_world_def one_post_database_def hello_post_def news_post_def
  featured_hello_def synced_once_world_def synced_once_database_def example_defs

lemma sync_featured_content_first_run:
  "sync_featured_content example_env ''site1'' ''site2'' one_post_world =
     (Inr True, synced_once_world)"
  by (simp add: sync_defs py_defs frame_defs db_defs date_defs Let_def str_nat.simps run_defs)

lemma sync_featured_content_second_run:
  "fst (sync_featured_content example_env ''site1'' ''site2'' synced_once_world) = Inr True
   \<and> inserts ''site2_posts''
        (trace (snd (sync_featured_content example_env ''site1'' ''site2'' synced_once_world)))
       = 2
   \<and> rows_of (db_committed
        (snd (sync_featured_content example_env ''site1'' ''site2'' synced_once_world)))
        ''site2_posts'' = [featured_hello 1, featured_hello 2]"
  by (simp add: sync_defs py_defs frame_defs db_defs date_defs Let_def str_nat.simps run_defs
      rows_of_def inserts_def)

text \<open>
  C2, at a concrete run: site 1 has one recent post and site 2 none. The first run copies
  the post into site 2 under the title \<open>[Featured] Hello\<close>. The second run, with the same
  source posts, looks for a copy under the source's title \<open>Hello\<close>, finds none, and inserts
  again: it performs one insert, not zero, and site 2 holds the copy twice.
\<close>

theorem sync_featured_content_twice_example:
  "sync_featured_content example_env ''site1'' ''site2'' one_post_world =
     (Inr True, synced_once_world)
   \<and> inserts ''site2_posts'' (trace synced_once_world) = 1
   \<and> fst (sync_featured_content example_env ''site1'' ''site2'' synced_once_world) = Inr True
   \<and> inserts ''site2_posts''
        (trace (snd (sync_featured_content example_env ''site1'' ''site2'' synced_once_world)))
       = 2
   \<and> rows_of (db_committed
        (snd (sync_featured_content example_env ''site1'' ''site2'' synced_once_world)))
        ''site2_posts'' = [featured_hello 1, featured_hello 2]"
  using sync_featured_content_first_run sync_featured_content_second_run
  by (simp add: inserts_def synced_once_world_def)




subsection \<open>The full synchronisation\<close>

lemma foldr_py_then_outcomes:
  assumes k: "\<And>s. fst (k s) = Inr True"
  shows "fst (foldr py_then ms k s) =
     (if list_all (\<lambda>r. \<not> isl r) (outcomes ms s) then Inr True
      else last (outcomes ms s))"
proof (induction ms arbitrary: s)
  case Nil
  show ?case by (simp add: k)
next
  case (Cons m ms)
  obtain r s' where m: "m s = (r, s')" by (cases "m s")
  show ?case
  proof (cases r)
    case (Inl e)
    with m show ?thesis by (simp add: py_then_def py_bind_def)
  next
    case (Inr x)
    with m Cons [of s'] show ?thesis
      by (cases ms) (simp_all add: py_then_def py_bind_def k)
  qed
qed

lemma outcomes_last_isl:
  "\<not> list_all (\<lambda>r. \<not> isl r) (outcomes ms s) \<Longrightarrow> isl (last (outcomes ms s))"
proof (induction ms arbitrary: s)
  case Nil
  then show ?case by simp
next
  case (Cons m ms)
  obtain r s' where m: "m s = (r, s')" by (cases "m s")
  show ?case
  proof (cases r)
    case (Inl e)
    with m show ?thesis by simp
  next
    case (Inr x)
    with m Cons.prems have "\<not> list_all (\<lambda>r. \<not> isl r) (outcomes ms s')" by simp
    with Cons.IH [of s'] have "isl (last (outcomes ms s'))" and "outcomes ms s' \<noteq> []"
      by auto
    with m Inr show ?thesis by simp
  qed
qed

lemma py_finally_close_fst:
  "fst (py_finally b
     (py_bind (py_gets db_connection) (\<lambda>c. if c then connection_close else py_return ())) s)
   = fst (b s)"
  by (cases "b s") (simp add: py_defs connection_close_def)

lemma py_try_except_Exception_fst:
  "fst (py_try body (except_Exception (\<lambda>e. py_then (logger lvl (f e)) (py_return False))) s)
   = (if isl (fst (body s)) then Inr False else fst (body s))"
  by (cases "body s"; cases "fst (body s)") (simp_all add: py_defs)

lemma run_full_sync_body:
  "py_then (sync_featured_content env ''site1'' ''site2'')
  (py_then (sync_featured_content env ''site2'' ''site1'')
  (py_then (update_cross_site_links env ''site1'' ''site2'')
  (py_then (sync_user_data env ''site1'' ''site2'')
  (py_then (sync_user_data env ''site2'' ''site1'')
  (py_then (cleanup_old_revisions env ''site1'' 30)
  (py_then (cleanup_old_revisions env ''site2'' 30) k))))))
  = foldr py_then (sync_steps env) k"
  by (simp add: sync_steps_def)

lemma py_then_logger:
  "py_then (logger lvl msg) m w = m (snd (logger lvl msg w))"
  by (simp add: py_defs)

lemma run_full_sync_result:
  "fst (run_full_sync env w) =
     Inr (list_all (\<lambda>r. \<not> isl r) (outcomes (sync_steps env) (started w)))"
proof -
  let ?k = "py_then (logger INFO ''Full content synchronization completed successfully'')
                   (py_return True)"
  have k: "\<And>s. fst (?k s) = Inr True" by (simp add: py_defs)
  have body: "fst (py_then (logger INFO ''Starting full content synchronization'')
      (foldr py_then (sync_steps env) ?k) w) =
     (if list_all (\<lambda>r. \<not> isl r) (outcomes (sync_steps env) (started w)) then Inr True
      else last (outcomes (sync_steps env) (started w)))"
  proof -
    have "py_then (logger INFO ''Starting full content synchronization'')
        (foldr py_then (sync_steps env) ?k) w = foldr py_then (sync_steps env) ?k (started w)"
      by (simp only: py_then_logger started_def)
    then show ?thesis by (simp only: foldr_py_then_outcomes [OF k])
  qed
  show ?thesis
    unfolding run_full_sync_def run_full_sync_body py_finally_close_fst
      py_try_except_Exception_fst body
    using outcomes_last_isl [of "sync_steps env" "started w"]
    by simp
qed

text \<open>
  C10: \<open>run_full_sync\<close> reports success exactly when none of its seven steps raises, and
  failure exactly when one of them does; what the steps return does not count, so it
  reports success even when all seven returned failure. (The steps run in the world the
  call starts them in: its own, after the first line of the log.)
\<close>

theorem run_full_sync_ignores_results:
  "(fst (run_full_sync env w) = Inr True \<longleftrightarrow>
      (\<forall>r \<in> set (outcomes (sync_steps env) (started w)). \<not> isl r))
   \<and> (fst (run_full_sync env w) = Inr False \<longleftrightarrow>
      (\<exists>r \<in> set (outcomes (sync_steps env) (started w)). isl r))
   \<and> (outcomes (sync_steps env) (started w) =
         [Inr False, Inr False, Inr False, Inr False, Inr False, Inr False, Inr False] \<longrightarrow>
        fst (run_full_sync env w) = Inr True)"
proof (intro conjI impI)
  show "fst (run_full_sync env w) = Inr True \<longleftrightarrow>
      (\<forall>r \<in> set (outcomes (sync_steps env) (started w)). \<not> isl r)"
    by (simp add: run_full_sync_result list_all_iff)
  show "fst (run_full_sync env w) = Inr False \<longleftrightarrow>
      (\<exists>r \<in> set (outcomes (sync_steps env) (started w)). isl r)"
    by (simp add: run_full_sync_result list_all_iff)
  assume "outcomes (sync_steps env) (started w) =
    [Inr False, Inr False, Inr False, Inr False, Inr False, Inr False, Inr False]"
  then show "fst (run_full_sync env w) = Inr True"
    by (simp add: run_full_sync_result)
qed

lemmas step_defs = sync_defs update_cross_site_links_def update_links_def sync_user_data_def
  select_new_users_def select_user_by_email_def insert_user_def cleanup_old_revisions_def
  delete_revisions_def

lemmas both_defs = both_sites_world_def both_sites_database_def hello_post_def news_post_def
  example_defs

lemma featured_site1_fails:
  "sync_featured_content example_env ''site1'' ''site2''
     (both_sites_world False (None # None # None # None # Some msg # None # rest) tr) =
     (Inr False,
      both_sites_world True rest
        (tr @ [Log INFO ''Database connection established'',
               Log INFO ''Found 1 recent posts for site1_'',
               Log ERROR (''Error syncing content: '' @ msg)]))"
  by (simp add: sync_defs py_defs frame_defs db_defs date_defs Let_def str_nat.simps both_defs)

lemma featured_site2_fails:
  "sync_featured_content example_env ''site2'' ''site1''
     (both_sites_world True (None # None # None # Some msg # None # rest) tr) =
     (Inr False,
      both_sites_world True rest
        (tr @ [Log INFO ''Found 1 recent posts for site2_'',
               Log ERROR (''Error syncing content: '' @ msg)]))"
  by (simp add: sync_defs py_defs frame_defs db_defs date_defs Let_def str_nat.simps both_defs)

lemma update_links_fails:
  "update_cross_site_links example_env ''site1'' ''site2''
     (both_sites_world True (None # None # None # rest) tr) =
     (Inr False,
      both_sites_world True rest
        (tr @ [Log ERROR ''Error updating cross-site links: Table site1posts does not exist'']))"
  by (simp add: step_defs py_defs frame_defs db_defs date_defs Let_def both_defs)

lemma user_data_site1_fails:
  "sync_user_data example_env ''site1'' ''site2''
     (both_sites_world True (None # Some msg # None # rest) tr) =
     (Inr False,
      both_sites_world True rest (tr @ [Log ERROR (''Error syncing user data: '' @ msg)]))"
  by (simp add: step_defs py_defs frame_defs db_defs date_defs Let_def both_defs)

lemma user_data_site2_fails:
  "sync_user_data example_env ''site2'' ''site1''
     (both_sites_world True (None # Some msg # None # rest) tr) =
     (Inr False,
      both_sites_world True rest (tr @ [Log ERROR (''Error syncing user data: '' @ msg)]))"
  by (simp add: step_defs py_defs frame_defs db_defs date_defs Let_def both_defs)

lemma revisions_site1_fails:
  "cleanup_old_revisions example_env ''site1'' 30 (both_sites_world True [] tr) =
     (Inr False,
      both_sites_world True []
        (tr @ [Log ERROR ''Error cleaning up revisions: Table site1posts does not exist'']))"
  by (simp add: step_defs py_defs frame_defs db_defs date_defs Let_def both_defs)

lemma revisions_site2_fails:
  "cleanup_old_revisions example_env ''site2'' 30 (both_sites_world True [] tr) =
     (Inr False,
      both_sites_world True []
        (tr @ [Log ERROR ''Error cleaning up revisions: Table site2posts does not exist'']))"
  by (simp add: step_defs py_defs frame_defs db_defs date_defs Let_def both_defs)

lemma started_both_sites_world:
  "started (both_sites_world connected faults tr) =
     both_sites_world connected faults
       (tr @ [Log INFO ''Starting full content synchronization''])"
  by (simp add: started_def both_sites_world_def py_defs)

lemma failing_steps_outcomes:
  "outcomes (sync_steps example_env) (started failing_steps_world) =
     [Inr False, Inr False, Inr False, Inr False, Inr False, Inr False, Inr False]"
  by (simp add: sync_steps_def failing_steps_world_def started_both_sites_world
      featured_site1_fails featured_site2_fails update_links_fails user_data_site1_fails
      user_data_site2_fails revisions_site1_fails revisions_site2_fails)

text \<open>
  A run in which both featured-content syncs, the link update, both user syncs and both
  revision cleanups return failure: \<open>run_full_sync\<close> reports success.
\<close>

theorem run_full_sync_ignores_results_witness:
  "outcomes (sync_steps example_env) (started failing_steps_world) =
     [Inr False, Inr False, Inr False, Inr False, Inr False, Inr False, Inr False]
   \<and> fst (run_full_sync example_env failing_steps_world) = Inr True"
  using run_full_sync_ignores_results [of example_env failing_steps_world]
    failing_steps_outcomes by blast

end
